theory Spec2Isabelle
  imports Complex_Main "HOL-Library.Sublist"
begin

section \<open>The LLM engine of bolt-llama-electron\<close>

text \<open>
  A shallow embedding of the class \<^verbatim>\<open>LLMEngine\<close> (\<^verbatim>\<open>src/main/llm-engine.ts\<close>, stored in
  the snapshot inside \<^verbatim>\<open>src/renderer/stores/chatStore.ts\<close>, lines 70 to 351) and of
  \<^verbatim>\<open>IPCHandler.handleLoadModel\<close> (\<^verbatim>\<open>src/main/ipc-handlers.ts\<close>).

  The engine is a mutable object: every method is modelled as a function that takes the
  engine and returns the engine it leaves behind. The library \<^verbatim>\<open>node-llama-cpp\<close>, the
  console and the clock are outside the repository: the library is a record of functions
  (type \<open>llama_runtime\<close>) that say what each call returns or throws, the clock is the pair
  of readings of \<^verbatim>\<open>Date.now()\<close>, and every call to the library or to the console is
  written to a list of effects in the order the code performs it.

  A JavaScript string is modelled as a \<open>string\<close> (its length is the length of the list),
  a JavaScript number as a \<open>real\<close> where the code only passes it on and as a \<open>nat\<close> or
  \<open>int\<close> where the code computes with it (string lengths, clock readings). A thrown
  \<^verbatim>\<open>Error\<close> is a value \<open>JsError message\<close>.
\<close>

subsection \<open>Data\<close>

text \<open>\<^verbatim>\<open>LLMEngineConfig\<close> (shared types, lines 100 to 108), as the constructor fills it:
  every field holds a value.\<close>

record LLMEngineConfig =
  modelPath :: string
  gpuLayers :: real
  contextSize :: real
  batchSize :: real
  temperature :: real
  topP :: real
  topK :: real

text \<open>\<^verbatim>\<open>Partial<LLMEngineConfig>\<close>: \<open>None\<close> is an absent key.\<close>

record PartialConfig =
  p_modelPath :: "string option"
  p_gpuLayers :: "real option"
  p_contextSize :: "real option"
  p_batchSize :: "real option"
  p_temperature :: "real option"
  p_topP :: "real option"
  p_topK :: "real option"

text \<open>\<^verbatim>\<open>GenerationRequest\<close> (shared types, lines 35 to 42). The fields \<^verbatim>\<open>context\<close>,
  \<^verbatim>\<open>model\<close> and \<^verbatim>\<open>temperature\<close> carry the prefix \<open>r_\<close> because the engine and its
  configuration have fields of the same names (and the engine's own \<^verbatim>\<open>context\<close> is
  written \<open>context'\<close>, the bare word being reserved). The type has no \<^verbatim>\<open>topP\<close> and no
  \<^verbatim>\<open>topK\<close>.\<close>

record GenerationRequest =
  prompt :: string
  r_context :: "string option"
  r_model :: "string option"
  r_temperature :: "real option"
  maxTokens :: "real option"
  systemPrompt :: "string option"

text \<open>\<^verbatim>\<open>GenerationResponse\<close> (shared types, lines 44 to 50); \<^verbatim>\<open>language\<close> is never set.\<close>

record GenerationResponse =
  code :: string
  explanation :: string
  tokens :: nat
  generationTime :: int

text \<open>\<^verbatim>\<open>StreamMessage\<close> (shared types, lines 110 to 115), one constructor for each value
  of \<^verbatim>\<open>type\<close> with the fields the engine sets for it: \<open>Start\<close> carries
  \<^verbatim>\<open>metadata.prompt\<close>, \<open>Chunk\<close> carries \<^verbatim>\<open>data\<close>, \<open>End\<close> carries \<^verbatim>\<open>metadata.tokens\<close>,
  \<^verbatim>\<open>metadata.generationTime\<close> and \<^verbatim>\<open>metadata.totalLength\<close>, \<open>Error\<close> carries
  \<^verbatim>\<open>error\<close>.\<close>

datatype StreamMessage =
    Start string
  | Chunk string
  | End nat int nat
  | Error string

text \<open>The objects of \<^verbatim>\<open>node-llama-cpp\<close> the engine holds. Each remembers what it was
  made from.\<close>

datatype LlamaModel = LlamaModel string real
datatype LlamaContext = LlamaContext LlamaModel real real
datatype LlamaChatSession = LlamaChatSession LlamaContext

text \<open>The options object of \<^verbatim>\<open>session.prompt\<close> (lines 162 to 167 and 230 to 235).\<close>

record PromptOptions =
  o_temperature :: real
  o_maxTokens :: real
  o_topP :: real
  o_topK :: real

text \<open>The private fields of \<^verbatim>\<open>LLMEngine\<close> (lines 80 to 85).\<close>

record engine =
  model :: "LlamaModel option"
  context' :: "LlamaContext option"
  session :: "LlamaChatSession option"
  config :: LLMEngineConfig
  isLoading :: bool
  isCancelled :: bool

datatype error = JsError string

text \<open>What the library does when called: \<open>Inl message\<close> is a thrown error with that
  message (\<^verbatim>\<open>error instanceof Error ? error.message : String(error)\<close>), \<open>Inr\<close> the
  returned value. \<open>rt_newSession\<close> stands for \<^verbatim>\<open>context.getSequence()\<close> followed by
  \<^verbatim>\<open>new LlamaChatSession\<close>.\<close>

record llama_runtime =
  rt_getLlama :: "string + unit"
  rt_loadModel :: "string \<Rightarrow> real \<Rightarrow> string + LlamaModel"
  rt_createContext :: "LlamaModel \<Rightarrow> real \<Rightarrow> real \<Rightarrow> string + LlamaContext"
  rt_newSession :: "LlamaContext \<Rightarrow> string + LlamaChatSession"
  rt_prompt :: "LlamaChatSession \<Rightarrow> string \<Rightarrow> PromptOptions \<Rightarrow> string + string"
  rt_disposeContext :: "LlamaContext \<Rightarrow> string + unit"
  rt_disposeModel :: "LlamaModel \<Rightarrow> string + unit"

text \<open>The calls that leave the engine, in the order they are made.\<close>

datatype effect =
    ConsoleLog string
  | ConsoleError string string
  | GetLlama
  | LoadModel string real
  | CreateContext LlamaModel real real
  | NewSession LlamaContext
  | Prompt LlamaChatSession string PromptOptions
  | DisposeContext LlamaContext
  | DisposeModel LlamaModel

subsection \<open>Constants\<close>

text \<open>\<^verbatim>\<open>LLM_DEFAULTS.maxTokens\<close> and \<^verbatim>\<open>SYSTEM_PROMPTS.codeGeneration\<close>
  (\<^verbatim>\<open>src/shared/constants.ts\<close>, lines 22 and 206).\<close>

definition LLM_DEFAULTS_maxTokens :: real where
  "LLM_DEFAULTS_maxTokens = 2048"

definition SYSTEM_PROMPTS_codeGeneration :: string where
  "SYSTEM_PROMPTS_codeGeneration =
     ''You are an expert web developer. When asked to generate code, provide clean, well-structured, and production-ready code. Include comments where necessary. Return only the code without any explanation unless specifically asked.''"

text \<open>The messages of the errors the engine throws or yields. The names on the left are
  the ones the specification uses for them; the code has one class, \<^verbatim>\<open>Error\<close>, and
  tells the cases apart by message only.\<close>

definition NotLoadedError :: string where
  "NotLoadedError = ''LLM engine not initialized. Call initialize() first.''"

definition StillLoadingError :: string where
  "StillLoadingError = ''Model is still loading. Please wait.''"

definition CancelledError :: string where
  "CancelledError = ''Generation cancelled by user''"

definition GenerationError :: "string \<Rightarrow> string" where
  "GenerationError msg = ''Generation failed: '' @ msg"

definition ModelLoadError :: "string \<Rightarrow> string" where
  "ModelLoadError msg = ''Failed to initialize LLM engine: '' @ msg"

subsection \<open>Model lifecycle\<close>

text \<open>The \<^verbatim>\<open>catch\<close> block of \<^verbatim>\<open>initialize\<close> (lines 129 to 133), entered with the engine
  as the \<^verbatim>\<open>try\<close> block left it and the effects performed so far.\<close>

definition initialize_catch ::
  "engine \<Rightarrow> effect list \<Rightarrow> string \<Rightarrow> (error + unit) \<times> engine \<times> effect list" where
  "initialize_catch e tr msg =
     (Inl (JsError (ModelLoadError msg)),
      e\<lparr>isLoading := False\<rparr>,
      tr @ [ConsoleError ''Failed to initialize LLM engine:'' msg])"

text \<open>\<^verbatim>\<open>initialize\<close> (lines 102 to 134). Each \<^verbatim>\<open>await\<close> either returns or throws into
  the \<^verbatim>\<open>catch\<close> block; the assignments to \<^verbatim>\<open>this.model\<close> and \<^verbatim>\<open>this.context\<close> made
  before the throw stay.\<close>

definition initialize ::
  "llama_runtime \<Rightarrow> engine \<Rightarrow> (error + unit) \<times> engine \<times> effect list" where
  "initialize rt e =
     (if model e \<noteq> None then (Inr (), e, [ConsoleLog ''Model already loaded''])
      else
        (let e1 = e\<lparr>isLoading := True\<rparr>;
             tr1 = [ConsoleLog (''Loading model from: '' @ modelPath (config e1)), GetLlama]
         in (case rt_getLlama rt of
               Inl msg \<Rightarrow> initialize_catch e1 tr1 msg
             | Inr u \<Rightarrow>
                (let tr2 = tr1 @ [LoadModel (modelPath (config e1)) (gpuLayers (config e1))]
                 in (case rt_loadModel rt (modelPath (config e1)) (gpuLayers (config e1)) of
                       Inl msg \<Rightarrow> initialize_catch e1 tr2 msg
                     | Inr m \<Rightarrow>
                        (let e2 = e1\<lparr>model := Some m\<rparr>;
                             tr3 = tr2 @ [CreateContext m (contextSize (config e2))
                                            (batchSize (config e2))]
                         in (case rt_createContext rt m (contextSize (config e2))
                                    (batchSize (config e2)) of
                               Inl msg \<Rightarrow> initialize_catch e2 tr3 msg
                             | Inr c \<Rightarrow>
                                (let e3 = e2\<lparr>context' := Some c\<rparr>;
                                     tr4 = tr3 @ [NewSession c]
                                 in (case rt_newSession rt c of
                                       Inl msg \<Rightarrow> initialize_catch e3 tr4 msg
                                     | Inr s \<Rightarrow>
                                        (Inr (),
                                         e3\<lparr>session := Some s, isLoading := False\<rparr>,
                                         tr4 @ [ConsoleLog
                                                 ''LLM engine initialized successfully'']))))))))))"

text \<open>\<^verbatim>\<open>isModelLoaded\<close> (lines 320 to 322).\<close>

definition isModelLoaded :: "engine \<Rightarrow> bool" where
  "isModelLoaded e = (model e \<noteq> None \<and> context' e \<noteq> None \<and> session e \<noteq> None)"

text \<open>The state the specification calls Unloaded: model, context and session all absent.\<close>

definition unloaded :: "engine \<Rightarrow> bool" where
  "unloaded e = (model e = None \<and> context' e = None \<and> session e = None)"

text \<open>\<^verbatim>\<open>cancel\<close> (lines 293 to 295).\<close>

definition cancel :: "engine \<Rightarrow> engine" where
  "cancel e = e\<lparr>isCancelled := True\<rparr>"

text \<open>\<^verbatim>\<open>updateConfig\<close> (lines 334 to 336): the object spread keeps a field of the old
  configuration unless the argument has the key.\<close>

definition merge_config :: "LLMEngineConfig \<Rightarrow> PartialConfig \<Rightarrow> LLMEngineConfig" where
  "merge_config c p =
     \<lparr>modelPath = (case p_modelPath p of None \<Rightarrow> modelPath c | Some v \<Rightarrow> v),
      gpuLayers = (case p_gpuLayers p of None \<Rightarrow> gpuLayers c | Some v \<Rightarrow> v),
      contextSize = (case p_contextSize p of None \<Rightarrow> contextSize c | Some v \<Rightarrow> v),
      batchSize = (case p_batchSize p of None \<Rightarrow> batchSize c | Some v \<Rightarrow> v),
      temperature = (case p_temperature p of None \<Rightarrow> temperature c | Some v \<Rightarrow> v),
      topP = (case p_topP p of None \<Rightarrow> topP c | Some v \<Rightarrow> v),
      topK = (case p_topK p of None \<Rightarrow> topK c | Some v \<Rightarrow> v)\<rparr>"

definition updateConfig :: "engine \<Rightarrow> PartialConfig \<Rightarrow> engine" where
  "updateConfig e p = e\<lparr>config := merge_config (config e) p\<rparr>"

text \<open>The \<^verbatim>\<open>try\<close> block of \<^verbatim>\<open>unload\<close> (lines 302 to 311): \<open>Inl message\<close> when a
  \<^verbatim>\<open>dispose\<close> throws, with the engine as it is at the throw.\<close>

definition unload_try ::
  "llama_runtime \<Rightarrow> engine \<Rightarrow> (string + unit) \<times> engine \<times> effect list" where
  "unload_try rt e =
     (let r1 = (case context' e of
                  None \<Rightarrow> (Inr (), e, [])
                | Some c \<Rightarrow>
                    (case rt_disposeContext rt c of
                       Inl msg \<Rightarrow> (Inl msg, e, [DisposeContext c])
                     | Inr _ \<Rightarrow> (Inr (), e\<lparr>context' := None\<rparr>, [DisposeContext c])))
      in case r1 of
           (Inl msg, e1, tr1) \<Rightarrow> (Inl msg, e1, tr1)
         | (Inr _, e1, tr1) \<Rightarrow>
             (let r2 = (case model e1 of
                          None \<Rightarrow> (Inr (), e1, tr1)
                        | Some m \<Rightarrow>
                            (case rt_disposeModel rt m of
                               Inl msg \<Rightarrow> (Inl msg, e1, tr1 @ [DisposeModel m])
                             | Inr _ \<Rightarrow> (Inr (), e1\<lparr>model := None\<rparr>, tr1 @ [DisposeModel m])))
              in case r2 of
                   (Inl msg, e2, tr2) \<Rightarrow> (Inl msg, e2, tr2)
                 | (Inr _, e2, tr2) \<Rightarrow>
                     (Inr (), e2\<lparr>session := None\<rparr>, tr2 @ [ConsoleLog ''LLM engine unloaded''])))"

text \<open>\<^verbatim>\<open>unload\<close> (lines 300 to 315): the \<^verbatim>\<open>catch\<close> block logs and returns.\<close>

definition unload ::
  "llama_runtime \<Rightarrow> engine \<Rightarrow> (error + unit) \<times> engine \<times> effect list" where
  "unload rt e =
     (case unload_try rt e of
        (Inl msg, e', tr) \<Rightarrow> (Inr (), e', tr @ [ConsoleError ''Error unloading LLM engine:'' msg])
      | (Inr _, e', tr) \<Rightarrow> (Inr (), e', tr))"

text \<open>\<^verbatim>\<open>IPCHandler.handleLoadModel\<close> (\<^verbatim>\<open>ipc-handlers.ts\<close>, lines 75 to 87). The result is
  the pair of \<^verbatim>\<open>success\<close> and \<^verbatim>\<open>message\<close>.\<close>

definition handleLoadModel ::
  "llama_runtime \<Rightarrow> engine \<Rightarrow> string \<Rightarrow> (bool \<times> string) \<times> engine \<times> effect list" where
  "handleLoadModel rt e path =
     (let e1 = updateConfig e
                 \<lparr>p_modelPath = Some path, p_gpuLayers = None, p_contextSize = None,
                  p_batchSize = None, p_temperature = None, p_topP = None, p_topK = None\<rparr>
      in case initialize rt e1 of
           (Inr _, e2, tr) \<Rightarrow> ((True, ''Model loaded successfully''), e2, tr)
         | (Inl (JsError msg), e2, tr) \<Rightarrow>
             ((False, ''Failed to load model: '' @ msg), e2,
              tr @ [ConsoleError ''Model loading error:'' msg]))"

subsection \<open>Strings\<close>

text \<open>\<^verbatim>\<open>String.prototype.substring(start, end)\<close> on natural arguments: both are clamped
  to the length and swapped when out of order.\<close>

definition substring :: "string \<Rightarrow> nat \<Rightarrow> nat \<Rightarrow> string" where
  "substring s a b =
     (let a' = min a (length s); b' = min b (length s)
      in take (max a' b' - min a' b') (drop (min a' b') s))"

definition newline :: char where
  "newline = CHR 0x0A"

definition backtick :: char where
  "backtick = CHR 0x60"

text \<open>The template literal \<^verbatim>\<open>${n}\<close> of a natural number and of an integer: decimal
  digits, a minus sign in front of a negative one.\<close>

function show_nat :: "nat \<Rightarrow> string" where
  "show_nat n =
     (if n < 10 then [''0123456789'' ! n]
      else show_nat (n div 10) @ [''0123456789'' ! (n mod 10)])"
  by pat_completeness auto
termination
  by (relation "measure id") auto

definition show_int :: "int \<Rightarrow> string" where
  "show_int k = (if k < 0 then CHR ''-'' # show_nat (nat (- k)) else show_nat (nat k))"

text \<open>The regular expression of line 177, \<^verbatim>\<open>/```(?:\w+)?\n([\s\S]*?)\n```/\<close>, and
  \<^verbatim>\<open>String.prototype.match\<close> with it; the result is the first capture group of the
  leftmost match, \<open>None\<close> when nothing matches.

  \<open>is_word_char\<close> is the class \<^verbatim>\<open>\w\<close>. At a fixed start, the greedy optional group
  \<^verbatim>\<open>(?:\w+)?\<close> can only be followed by the line feed when it has taken every word
  character there is (a shorter run is followed by a word character), so the match
  skips the longest run; the lazy group then takes the shortest text that is followed
  by a line feed and three backticks.\<close>

definition is_word_char :: "char \<Rightarrow> bool" where
  "is_word_char c =
     (c \<in> set ''abcdefghijklmnopqrstuvwxyzABCDEFGHIJKLMNOPQRSTUVWXYZ0123456789_'')"

definition fence :: string where
  "fence = [backtick, backtick, backtick]"

fun lazy_group :: "string \<Rightarrow> string \<Rightarrow> string option" where
  "lazy_group acc [] = None"
| "lazy_group acc (c # cs) =
     (if prefix (newline # fence) (c # cs) then Some acc else lazy_group (acc @ [c]) cs)"

definition match_at :: "string \<Rightarrow> string option" where
  "match_at s =
     (if prefix fence s then
        (case dropWhile is_word_char (drop 3 s) of
           [] \<Rightarrow> None
         | c # rest \<Rightarrow> if c = newline then lazy_group [] rest else None)
      else None)"

fun codeMatch :: "string \<Rightarrow> string option" where
  "codeMatch [] = None"
| "codeMatch (c # cs) =
     (case match_at (c # cs) of Some g \<Rightarrow> Some g | None \<Rightarrow> codeMatch cs)"

text \<open>The texts the regular expression matches as a whole, followed by anything: three
  backticks, a run \<open>tag\<close> of word characters (maybe empty), a line feed, a text \<open>body\<close>,
  a line feed, three backticks.\<close>

definition fenced_block :: "string \<Rightarrow> string \<Rightarrow> string \<Rightarrow> string" where
  "fenced_block tag body post = fence @ tag @ newline # body @ newline # fence @ post"

subsection \<open>Generation\<close>

text \<open>The local constants that \<^verbatim>\<open>generate\<close> (lines 152 to 156 and 163 to 166) and
  \<^verbatim>\<open>generateStream\<close> (lines 221 to 225 and 231 to 234) compute in the same words.
  \<^verbatim>\<open>||\<close> takes the default for an absent and for an empty \<^verbatim>\<open>systemPrompt\<close>;
  \<^verbatim>\<open>??\<close> takes it for an absent value only.\<close>

definition systemPrompt_of :: "GenerationRequest \<Rightarrow> string" where
  "systemPrompt_of request =
     (case systemPrompt request of
        None \<Rightarrow> SYSTEM_PROMPTS_codeGeneration
      | Some sp \<Rightarrow> if sp = [] then SYSTEM_PROMPTS_codeGeneration else sp)"

definition fullPrompt :: "GenerationRequest \<Rightarrow> string" where
  "fullPrompt request =
     systemPrompt_of request @ [newline, newline] @ ''User: '' @ prompt request"

definition promptOptions :: "engine \<Rightarrow> GenerationRequest \<Rightarrow> PromptOptions" where
  "promptOptions e request =
     \<lparr>o_temperature = (case r_temperature request of
                         None \<Rightarrow> temperature (config e) | Some t \<Rightarrow> t),
      o_maxTokens = (case maxTokens request of
                       None \<Rightarrow> LLM_DEFAULTS_maxTokens | Some k \<Rightarrow> k),
      o_topP = topP (config e),
      o_topK = topK (config e)\<rparr>"

text \<open>\<^verbatim>\<open>Math.ceil(generatedCode.length / 4)\<close>.\<close>

definition tokenCount :: "string \<Rightarrow> nat" where
  "tokenCount generatedCode = (length generatedCode + 3) div 4"

text \<open>\<^verbatim>\<open>code.split('\n').length\<close>: one more than the number of line feeds.\<close>

definition lineCount :: "string \<Rightarrow> nat" where
  "lineCount s = Suc (length (filter (\<lambda>c. c = newline) s))"

text \<open>Lines 169 to 185 of \<^verbatim>\<open>generate\<close>: the response of a prompt that returned.\<close>

definition generate_result :: "string \<Rightarrow> int \<Rightarrow> GenerationResponse" where
  "generate_result generatedCode time =
     (let code' = (case codeMatch generatedCode of Some g \<Rightarrow> g | None \<Rightarrow> generatedCode)
      in \<lparr>code = code',
          explanation = ''Generated '' @ show_nat (lineCount code') @ '' lines of code in ''
                          @ show_int time @ ''ms'',
          tokens = tokenCount generatedCode,
          generationTime = time\<rparr>)"

text \<open>\<^verbatim>\<open>generate\<close> up to its \<^verbatim>\<open>await\<close> (lines 140 to 167): the two guards, the reset
  of the cancellation flag, and the session, prompt and options of the call to
  \<^verbatim>\<open>session.prompt\<close>. The caller is then suspended until the prompt settles.\<close>

definition generate_begin ::
  "engine \<Rightarrow> GenerationRequest
     \<Rightarrow> error + (engine \<times> LlamaChatSession \<times> string \<times> PromptOptions)" where
  "generate_begin e request =
     (case session e of
        None \<Rightarrow> Inl (JsError NotLoadedError)
      | Some s \<Rightarrow>
          if isLoading e then Inl (JsError StillLoadingError)
          else (let e1 = e\<lparr>isCancelled := False\<rparr>
                in Inr (e1, s, fullPrompt request, promptOptions e1 request)))"

text \<open>\<^verbatim>\<open>generate\<close> after its \<^verbatim>\<open>await\<close> (lines 169 to 192), with the engine as it is
  when the prompt settles, what the prompt did, and the time elapsed.\<close>

definition generate_resume ::
  "engine \<Rightarrow> string + string \<Rightarrow> int \<Rightarrow> (error + GenerationResponse) \<times> effect list" where
  "generate_resume e outcome time =
     (case outcome of
        Inr response \<Rightarrow> (Inr (generate_result response time), [])
      | Inl msg \<Rightarrow>
          if isCancelled e then (Inl (JsError CancelledError), [])
          else (Inl (JsError (GenerationError msg)), [ConsoleError ''Generation failed:'' msg]))"

text \<open>\<^verbatim>\<open>generate\<close> (lines 139 to 193). \<open>env\<close> is what other callers do to the engine
  while this call awaits the prompt (nothing: \<open>id\<close>; a call of \<^verbatim>\<open>cancel()\<close>: \<open>cancel\<close>);
  \<open>t0\<close> and \<open>t1\<close> are the two readings of \<^verbatim>\<open>Date.now()\<close>.\<close>

definition generate ::
  "llama_runtime \<Rightarrow> (engine \<Rightarrow> engine) \<Rightarrow> engine \<Rightarrow> GenerationRequest \<Rightarrow> int \<Rightarrow> int
     \<Rightarrow> (error + GenerationResponse) \<times> engine \<times> effect list" where
  "generate rt env e request t0 t1 =
     (case generate_begin e request of
        Inl err \<Rightarrow> (Inl err, e, [])
      | Inr (e1, s, fp, opts) \<Rightarrow>
          (let e2 = env e1;
               (res, tr) = generate_resume e2 (rt_prompt rt s fp opts) (t1 - t0)
           in (res, e2, Prompt s fp opts # tr)))"

subsection \<open>Streaming generation\<close>

text \<open>\<^verbatim>\<open>generateStream\<close> is an asynchronous generator: it is suspended at every
  \<^verbatim>\<open>yield\<close> and at its \<^verbatim>\<open>await\<close>, and other callers may use the engine while it is.
  \<open>env k\<close> is what they do to the engine during the \<open>k\<close>-th suspension: \<open>env 0\<close> after
  \<open>Start\<close> was yielded, \<open>env 1\<close> while the prompt is awaited, \<open>env (2 + j)\<close> after the
  chunk of index \<open>j\<close> was yielded. The model is of a consumer that takes every event.\<close>

definition chunkSize :: nat where
  "chunkSize = 50"

text \<open>The two guards and the reset of the flag (lines 199 to 215): the \<open>Error\<close> event of
  a rejected call, or the engine of an accepted one.\<close>

definition stream_begin :: "engine \<Rightarrow> StreamMessage + engine" where
  "stream_begin e =
     (case session e of
        None \<Rightarrow> Inl (Error NotLoadedError)
      | Some s \<Rightarrow>
          if isLoading e then Inl (Error StillLoadingError)
          else Inr (e\<lparr>isCancelled := False\<rparr>))"

text \<open>The message of the \<^verbatim>\<open>TypeError\<close> of \<^verbatim>\<open>this.session.prompt\<close> when \<^verbatim>\<open>this.session\<close>
  has become \<^verbatim>\<open>null\<close> since the guard (the wording is the one of V8).\<close>

definition nullSessionMessage :: string where
  "nullSessionMessage =
     ''Cannot read properties of null (reading '' @ [CHR 0x27] @ ''prompt'' @ [CHR 0x27] @ '')''"

text \<open>Lines 221 to 237: after \<open>Start\<close>, the generator reads \<^verbatim>\<open>this.config\<close> and
  \<^verbatim>\<open>this.session\<close> again and awaits the prompt. The result is what the prompt did and
  the engine as the generator finds it next. A \<^verbatim>\<open>null\<close> session throws at once, with
  no suspension.\<close>

definition stream_prompt ::
  "llama_runtime \<Rightarrow> (nat \<Rightarrow> engine \<Rightarrow> engine) \<Rightarrow> engine \<Rightarrow> GenerationRequest
     \<Rightarrow> (string + string) \<times> engine" where
  "stream_prompt rt env e1 request =
     (let e2 = env 0 e1
      in case session e2 of
           None \<Rightarrow> (Inl nullSessionMessage, e2)
         | Some s \<Rightarrow>
             (rt_prompt rt s (fullPrompt request) (promptOptions e2 request), env 1 e2))"

text \<open>The loop of lines 240 to 250 followed by the \<open>End\<close> event of lines 252 to 262,
  from index \<open>i\<close> and with the engine \<open>e\<close> as the generator finds it there.\<close>

function stream_loop ::
  "(nat \<Rightarrow> engine \<Rightarrow> engine) \<Rightarrow> int \<Rightarrow> int \<Rightarrow> string \<Rightarrow> nat \<Rightarrow> engine
     \<Rightarrow> StreamMessage list" where
  "stream_loop env t0 t1 generatedCode i e =
     (if i < length generatedCode then
        (if isCancelled e then [Error CancelledError]
         else Chunk (substring generatedCode i (i + chunkSize))
                # stream_loop env t0 t1 generatedCode (i + chunkSize)
                    (env (2 + i div chunkSize) e))
      else [End (tokenCount generatedCode) (t1 - t0) (length generatedCode)])"
  by pat_completeness auto
termination
  by (relation "measure (\<lambda>(env, t0, t1, generatedCode, i, e). length generatedCode - i)")
     (auto simp: chunkSize_def)

text \<open>\<^verbatim>\<open>generateStream\<close> (lines 198 to 271): the events it yields, in order. The
  \<^verbatim>\<open>catch\<close> block (lines 263 to 270) yields nothing when the flag is set.\<close>

definition generateStream ::
  "llama_runtime \<Rightarrow> (nat \<Rightarrow> engine \<Rightarrow> engine) \<Rightarrow> engine \<Rightarrow> GenerationRequest \<Rightarrow> int \<Rightarrow> int
     \<Rightarrow> StreamMessage list" where
  "generateStream rt env e request t0 t1 =
     (case stream_begin e of
        Inl ev \<Rightarrow> [ev]
      | Inr e1 \<Rightarrow>
          Start (prompt request)
            # (case stream_prompt rt env e1 request of
                 (Inl msg, e3) \<Rightarrow>
                   if \<not> isCancelled e3 then [Error (GenerationError msg)] else []
               | (Inr generatedCode, e3) \<Rightarrow> stream_loop env t0 t1 generatedCode 0 e3))"

subsection \<open>Notions for stating the streaming properties\<close>

text \<open>The kinds of events, and the \<^verbatim>\<open>data\<close> of the chunks of a sequence, in order.\<close>

fun isChunk :: "StreamMessage \<Rightarrow> bool" where
  "isChunk (Chunk d) = True"
| "isChunk ev = False"

fun isTerminal :: "StreamMessage \<Rightarrow> bool" where
  "isTerminal (End n t l) = True"
| "isTerminal (Error m) = True"
| "isTerminal ev = False"

fun payloads :: "StreamMessage list \<Rightarrow> string list" where
  "payloads [] = []"
| "payloads (Chunk d # evs) = d # payloads evs"
| "payloads (ev # evs) = payloads evs"

text \<open>The engine as the generator finds it at the check of \<^verbatim>\<open>this.isCancelled\<close> before
  the chunk of index \<open>j\<close> (line 242), when no earlier check stopped it: \<open>e3\<close> is the
  engine when the prompt has returned, and \<open>env (2 + j)\<close> acts after chunk \<open>j\<close>.\<close>

primrec checkpoint :: "(nat \<Rightarrow> engine \<Rightarrow> engine) \<Rightarrow> engine \<Rightarrow> nat \<Rightarrow> engine" where
  "checkpoint env e3 0 = e3"
| "checkpoint env e3 (Suc j) = env (2 + j) (checkpoint env e3 j)"

text \<open>The number of iterations of the loop on a response, and the fragments it cuts.\<close>

definition chunkCount :: "string \<Rightarrow> nat" where
  "chunkCount out = (length out + (chunkSize - 1)) div chunkSize"

definition chunks :: "string \<Rightarrow> string list" where
  "chunks out = map (\<lambda>j. take chunkSize (drop (chunkSize * j) out)) [0..<chunkCount out]"

text \<open>The order the specification asks of an event sequence: one \<open>Start\<close>, first; then
  chunks only; then one terminal event, \<open>End\<close> or \<open>Error\<close>, last.\<close>

definition stream_ordered :: "StreamMessage list \<Rightarrow> bool" where
  "stream_ordered evs =
     (case evs of
        Start p # rest \<Rightarrow> rest \<noteq> [] \<and> list_all isChunk (butlast rest) \<and> isTerminal (last rest)
      | _ \<Rightarrow> False)"

subsection \<open>Example values\<close>

definition config0 :: LLMEngineConfig where
  "config0 =
     \<lparr>modelPath = ''/models/a.gguf'', gpuLayers = 33, contextSize = 4096, batchSize = 512,
      temperature = 7 / 10, topP = 9 / 10, topK = 40\<rparr>"

text \<open>An engine as the constructor leaves it.\<close>

definition engine0 :: engine where
  "engine0 =
     \<lparr>model = None, context' = None, session = None, config = config0,
      isLoading = False, isCancelled = False\<rparr>"

text \<open>A runtime in which every call succeeds and every prompt is answered by \<open>answer\<close>.\<close>

definition runtime_ok :: "string \<Rightarrow> llama_runtime" where
  "runtime_ok answer =
     \<lparr>rt_getLlama = Inr (),
      rt_loadModel = (\<lambda>p g. Inr (LlamaModel p g)),
      rt_createContext = (\<lambda>m c b. Inr (LlamaContext m c b)),
      rt_newSession = (\<lambda>c. Inr (LlamaChatSession c)),
      rt_prompt = (\<lambda>s p opts. Inr answer),
      rt_disposeContext = (\<lambda>c. Inr ()),
      rt_disposeModel = (\<lambda>m. Inr ())\<rparr>"

definition model0 :: LlamaModel where
  "model0 = LlamaModel ''/models/a.gguf'' 33"

definition context0 :: LlamaContext where
  "context0 = LlamaContext model0 4096 512"

definition session0 :: LlamaChatSession where
  "session0 = LlamaChatSession context0"

text \<open>The engine after a successful \<^verbatim>\<open>initialize\<close> of \<open>engine0\<close>.\<close>

definition engine_ready :: engine where
  "engine_ready =
     \<lparr>model = Some model0, context' = Some context0, session = Some session0,
      config = config0, isLoading = False, isCancelled = False\<rparr>"

definition request0 :: GenerationRequest where
  "request0 =
     \<lparr>prompt = ''hello'', r_context = None, r_model = None, r_temperature = None,
      maxTokens = None, systemPrompt = None\<rparr>"

text \<open>A runtime whose \<^verbatim>\<open>context.dispose()\<close> throws, and one whose
  \<^verbatim>\<open>model.createContext\<close> throws.\<close>

definition runtime_dispose_fails :: llama_runtime where
  "runtime_dispose_fails =
     (runtime_ok ''x'')\<lparr>rt_disposeContext := (\<lambda>c. Inl ''context busy'')\<rparr>"

definition runtime_model_dispose_fails :: llama_runtime where
  "runtime_model_dispose_fails =
     (runtime_ok ''x'')\<lparr>rt_disposeModel := (\<lambda>m. Inl ''model busy'')\<rparr>"

definition runtime_context_fails :: llama_runtime where
  "runtime_context_fails =
     (runtime_ok ''x'')\<lparr>rt_createContext := (\<lambda>m c b. Inl ''out of memory'')\<rparr>"

text \<open>A response of 120 characters (three chunks) and one that is a fenced code block.\<close>

definition long_answer :: string where
  "long_answer = replicate 120 (CHR ''a'')"

definition fenced_answer :: string where
  "fenced_answer = fence @ ''js'' @ [newline] @ ''x'' @ [newline] @ fence"

text \<open>A response with no fenced block.\<close>

definition plain_answer :: string where
  "plain_answer = ''const x = 1;''"

text \<open>Other callers that leave the engine alone, and other callers that call
  \<^verbatim>\<open>cancel()\<close> during the \<open>k\<close>-th suspension of the generator.\<close>

definition quiet :: "nat \<Rightarrow> engine \<Rightarrow> engine" where
  "quiet k = id"

definition cancel_during :: "nat \<Rightarrow> nat \<Rightarrow> engine \<Rightarrow> engine" where
  "cancel_during k = (\<lambda>i. if i = k then cancel else id)"

text \<open>What the acceptance of another generation does to the engine (lines 140 to 148
  and 199 to 215), and other callers that call \<^verbatim>\<open>cancel()\<close> right after \<open>Start\<close> and
  start another generation while the prompt is awaited.\<close>

definition second_accept :: "engine \<Rightarrow> engine" where
  "second_accept e = (case stream_begin e of Inl ev \<Rightarrow> e | Inr e' \<Rightarrow> e')"

definition cancel_then_second :: "nat \<Rightarrow> engine \<Rightarrow> engine" where
  "cancel_then_second k = (if k = 0 then cancel else if k = 1 then second_accept else id)"

text \<open>What other callers can do to the engine while a generation is in flight, besides
  \<^verbatim>\<open>cancel()\<close>: an \<^verbatim>\<open>unload()\<close> whose disposals succeed, and the first assignment of
  an \<^verbatim>\<open>initialize()\<close> (line 109).\<close>

definition unload_ok :: "engine \<Rightarrow> engine" where
  "unload_ok e = fst (snd (unload (runtime_ok ''x'') e))"

definition begin_loading :: "engine \<Rightarrow> engine" where
  "begin_loading e = e\<lparr>isLoading := True\<rparr>"

definition request1 :: GenerationRequest where
  "request1 = request0\<lparr>prompt := ''again''\<rparr>"

definition request_empty_system :: GenerationRequest where
  "request_empty_system = request0\<lparr>systemPrompt := Some []\<rparr>"

text \<open>A runtime whose \<^verbatim>\<open>session.prompt\<close> throws.\<close>

definition runtime_prompt_fails :: llama_runtime where
  "runtime_prompt_fails =
     (runtime_ok ''x'')\<lparr>rt_prompt := (\<lambda>s p opts. Inl ''decode failed'')\<rparr>"

subsection \<open>The effective prompt as the specification words it\<close>

text \<open>The specification's sentence, taken literally: the system instruction is the
  request's \<^verbatim>\<open>systemPrompt\<close> when present, otherwise the default, and the effective
  prompt is its concatenation with the user prompt.\<close>

definition spec_systemInstruction :: "GenerationRequest \<Rightarrow> string" where
  "spec_systemInstruction request =
     (case systemPrompt request of None \<Rightarrow> SYSTEM_PROMPTS_codeGeneration | Some sp \<Rightarrow> sp)"

definition spec_effectivePrompt :: "GenerationRequest \<Rightarrow> string" where
  "spec_effectivePrompt request = spec_systemInstruction request @ prompt request"

section \<open>Properties\<close>

subsection \<open>Facts about the example values\<close>

lemma unloaded_engine0: "unloaded engine0"
  by (simp add: unloaded_def engine0_def)

lemma isModelLoaded_engine_ready: "isModelLoaded engine_ready"
  by (simp add: isModelLoaded_def engine_ready_def)

lemma initialize_engine0:
  "initialize (runtime_ok a) engine0 =
     (Inr (), engine_ready,
      [ConsoleLog ''Loading model from: /models/a.gguf'', GetLlama,
       LoadModel ''/models/a.gguf'' 33, CreateContext model0 4096 512, NewSession context0,
       ConsoleLog ''LLM engine initialized successfully''])"
  by (simp add: initialize_def runtime_ok_def engine0_def engine_ready_def config0_def
        model0_def context0_def session0_def)

subsection \<open>Generation without a model\<close>

text \<open>
  Claim C6. For every request, \<^verbatim>\<open>generate\<close> on an engine in the Unloaded state (no model,
  no context, no session) fails with the error the specification calls NotLoadedError
  (an \<^verbatim>\<open>Error\<close> with the message \<open>NotLoadedError\<close>), whatever the runtime, the other
  callers and the clock do; it leaves the engine as it was and performs no effect: the
  model is never prompted.
\<close>

theorem generate_unloaded:
  assumes "unloaded e"
  shows "generate rt env e request t0 t1 = (Inl (JsError NotLoadedError), e, [])"
  using assms by (simp add: unloaded_def generate_def generate_begin_def)

theorem generate_unloaded_witness:
  "unloaded engine0 \<and>
   generate (runtime_ok ''x'') cancel engine0 request0 0 1
     = (Inl (JsError ''LLM engine not initialized. Call initialize() first.''), engine0, [])"
proof -
  have h: "unloaded engine0"
    by (rule unloaded_engine0)
  from generate_unloaded [OF h, of "runtime_ok ''x''" cancel request0 0 1] h
  show ?thesis by (simp add: NotLoadedError_def)
qed

subsection \<open>Loading twice\<close>

lemma initialize_success_model:
  assumes "initialize rt e = (Inr (), e1, tr1)"
  shows "model e1 \<noteq> None"
  using assms
  by (auto simp: initialize_def initialize_catch_def Let_def split: if_splits sum.splits)

lemma initialize_success_loaded:
  assumes "initialize rt e = (Inr (), e1, tr1)" and "unloaded e"
  shows "isModelLoaded e1"
  using assms
  by (auto simp: initialize_def initialize_catch_def Let_def unloaded_def isModelLoaded_def
           split: if_splits sum.splits)

text \<open>
  Claim C7. When a call of \<^verbatim>\<open>initialize\<close> has succeeded and left the engine \<open>e1\<close>, a
  second call with no \<^verbatim>\<open>unload\<close> in between succeeds, leaves the engine exactly as it
  was and performs no effect but the log line: it calls neither \<^verbatim>\<open>getLlama\<close> nor
  \<^verbatim>\<open>loadModel\<close>, whatever the runtime would answer. The engine holds a model, the one
  the first call left; and when the first call started from the Unloaded state, model,
  context and session are all present.
\<close>

theorem initialize_twice:
  assumes "initialize rt e = (Inr (), e1, tr1)"
  shows "initialize rt' e1 = (Inr (), e1, [ConsoleLog ''Model already loaded'']) \<and>
         model e1 \<noteq> None \<and> (unloaded e \<longrightarrow> isModelLoaded e1)"
proof -
  have m: "model e1 \<noteq> None"
    by (rule initialize_success_model [OF assms])
  have l: "unloaded e \<longrightarrow> isModelLoaded e1"
    using initialize_success_loaded [OF assms] by blast
  from m l show ?thesis by (simp add: initialize_def)
qed

theorem initialize_twice_witness:
  "unloaded engine0 \<and>
   fst (initialize (runtime_ok ''x'') engine0) = Inr () \<and>
   fst (snd (initialize (runtime_ok ''x'') engine0)) = engine_ready \<and>
   initialize (runtime_ok ''y'') engine_ready
     = (Inr (), engine_ready, [ConsoleLog ''Model already loaded'']) \<and>
   model engine_ready \<noteq> None \<and> isModelLoaded engine_ready"
proof -
  note h = initialize_engine0 [of "''x''"]
  from initialize_twice [OF h, of "runtime_ok ''y''"] unloaded_engine0 h
  show ?thesis by simp
qed

subsection \<open>Unloading\<close>

text \<open>
  What \<^verbatim>\<open>unload\<close> does, case by case. It never throws. On an engine in the Unloaded
  state it changes nothing and disposes nothing. When both disposals succeed it
  disposes the context, then the model, and leaves model, context and session absent.
  When \<^verbatim>\<open>context.dispose()\<close> throws, the error is logged and nothing is released or
  cleared; when \<^verbatim>\<open>model.dispose()\<close> throws, the error is logged and model and session
  stay.
\<close>

lemma unload_cases:
  "fst (unload rt e) = Inr () \<and>
   (unloaded e \<longrightarrow> unload rt e = (Inr (), e, [ConsoleLog ''LLM engine unloaded''])) \<and>
   (context' e = Some c \<and> model e = Some m \<and>
      rt_disposeContext rt c = Inr () \<and> rt_disposeModel rt m = Inr () \<longrightarrow>
      unload rt e =
        (Inr (), e\<lparr>model := None, context' := None, session := None\<rparr>,
         [DisposeContext c, DisposeModel m, ConsoleLog ''LLM engine unloaded''])) \<and>
   (context' e = Some c \<and> rt_disposeContext rt c = Inl msg \<longrightarrow>
      unload rt e =
        (Inr (), e, [DisposeContext c, ConsoleError ''Error unloading LLM engine:'' msg])) \<and>
   (context' e = Some c \<and> model e = Some m \<and>
      rt_disposeContext rt c = Inr () \<and> rt_disposeModel rt m = Inl msg \<longrightarrow>
      unload rt e =
        (Inr (), e\<lparr>context' := None\<rparr>,
         [DisposeContext c, DisposeModel m, ConsoleError ''Error unloading LLM engine:'' msg]))"
proof (intro conjI impI)
  show "fst (unload rt e) = Inr ()"
    by (simp add: unload_def split: prod.splits sum.splits)
next
  assume "unloaded e"
  then show "unload rt e = (Inr (), e, [ConsoleLog ''LLM engine unloaded''])"
    by (simp add: unloaded_def unload_def unload_try_def)
next
  assume "context' e = Some c \<and> model e = Some m \<and>
      rt_disposeContext rt c = Inr () \<and> rt_disposeModel rt m = Inr ()"
  then show "unload rt e =
        (Inr (), e\<lparr>model := None, context' := None, session := None\<rparr>,
         [DisposeContext c, DisposeModel m, ConsoleLog ''LLM engine unloaded''])"
    by (simp add: unload_def unload_try_def)
next
  assume "context' e = Some c \<and> rt_disposeContext rt c = Inl msg"
  then show "unload rt e =
        (Inr (), e, [DisposeContext c, ConsoleError ''Error unloading LLM engine:'' msg])"
    by (simp add: unload_def unload_try_def)
next
  assume "context' e = Some c \<and> model e = Some m \<and>
      rt_disposeContext rt c = Inr () \<and> rt_disposeModel rt m = Inl msg"
  then show "unload rt e =
        (Inr (), e\<lparr>context' := None\<rparr>,
         [DisposeContext c, DisposeModel m, ConsoleError ''Error unloading LLM engine:'' msg])"
    by (simp add: unload_def unload_try_def)
qed

text \<open>
  Claim C9, at the input where it fails. The claim has \<^verbatim>\<open>unload\<close> release the context,
  then the model, then clear the session reference, swallowing any disposal error. On
  the loaded engine with a runtime whose \<^verbatim>\<open>context.dispose()\<close> throws, \<^verbatim>\<open>unload\<close> returns
  normally and logs the error, but the throw leaves the \<^verbatim>\<open>try\<close> block: \<^verbatim>\<open>model.dispose()\<close>
  is never called, the session reference is not cleared, and the engine is still fully
  loaded. With a runtime whose \<^verbatim>\<open>model.dispose()\<close> throws, the context is released and
  model and session stay.
\<close>

theorem unload_dispose_failure:
  "unload runtime_dispose_fails engine_ready =
     (Inr (), engine_ready,
      [DisposeContext context0, ConsoleError ''Error unloading LLM engine:'' ''context busy'']) \<and>
   isModelLoaded engine_ready \<and>
   session engine_ready = Some session0 \<and>
   DisposeModel model0 \<notin> set (snd (snd (unload runtime_dispose_fails engine_ready))) \<and>
   unload runtime_model_dispose_fails engine_ready =
     (Inr (), engine_ready\<lparr>context' := None\<rparr>,
      [DisposeContext context0, DisposeModel model0,
       ConsoleError ''Error unloading LLM engine:'' ''model busy'']) \<and>
   model (engine_ready\<lparr>context' := None\<rparr>) = Some model0 \<and>
   session (engine_ready\<lparr>context' := None\<rparr>) = Some session0"
  by (simp add: unload_def unload_try_def runtime_dispose_fails_def
        runtime_model_dispose_fails_def runtime_ok_def engine_ready_def isModelLoaded_def)

subsection \<open>Loading a model that is already loaded\<close>

lemma unload_config: "config (fst (snd (unload rt e))) = config e"
  by (simp add: unload_def unload_try_def split: option.splits sum.splits)

lemma initialize_loads_configured_path:
  assumes "model e = None" and "rt_getLlama rt = Inr ()"
  shows "LoadModel (modelPath (config e)) (gpuLayers (config e))
           \<in> set (snd (snd (initialize rt e)))"
  using assms
  by (simp add: initialize_def initialize_catch_def Let_def split: sum.splits)

text \<open>
  Claim C10. On an engine with a model loaded, \<^verbatim>\<open>handleLoadModel\<close> with any path returns
  \<^verbatim>\<open>{success: true, message: 'Model loaded successfully'}\<close>; model, context and session
  are the ones held before, the only change to the engine is the \<^verbatim>\<open>modelPath\<close> of the
  retained configuration, and the runtime is not called. The new path is used by the
  next load: once an \<^verbatim>\<open>unload\<close> has released the model, \<^verbatim>\<open>initialize\<close> calls
  \<^verbatim>\<open>loadModel\<close> with it.
\<close>

theorem handleLoadModel_loaded:
  assumes "isModelLoaded e"
  shows "handleLoadModel rt e path =
           ((True, ''Model loaded successfully''),
            e\<lparr>config := (config e)\<lparr>modelPath := path\<rparr>\<rparr>,
            [ConsoleLog ''Model already loaded'']) \<and>
         (\<forall>rt1 rt2 e'.
            fst (snd (unload rt1 (e\<lparr>config := (config e)\<lparr>modelPath := path\<rparr>\<rparr>))) = e' \<and>
            model e' = None \<and> rt_getLlama rt2 = Inr () \<longrightarrow>
            LoadModel path (gpuLayers (config e)) \<in> set (snd (snd (initialize rt2 e'))))"
proof (intro conjI allI impI)
  from assms have m: "model e \<noteq> None"
    by (simp add: isModelLoaded_def)
  have c: "merge_config (config e)
             \<lparr>p_modelPath = Some path, p_gpuLayers = None, p_contextSize = None,
              p_batchSize = None, p_temperature = None, p_topP = None, p_topK = None\<rparr>
           = (config e)\<lparr>modelPath := path\<rparr>"
    by (simp add: merge_config_def)
  from m show "handleLoadModel rt e path =
           ((True, ''Model loaded successfully''),
            e\<lparr>config := (config e)\<lparr>modelPath := path\<rparr>\<rparr>,
            [ConsoleLog ''Model already loaded''])"
    by (simp add: handleLoadModel_def updateConfig_def c initialize_def)
next
  fix rt1 rt2 :: llama_runtime and e' :: engine
  assume h: "fst (snd (unload rt1 (e\<lparr>config := (config e)\<lparr>modelPath := path\<rparr>\<rparr>))) = e' \<and>
            model e' = None \<and> rt_getLlama rt2 = Inr ()"
  then have "config e' = (config e)\<lparr>modelPath := path\<rparr>"
    using unload_config [of rt1 "e\<lparr>config := (config e)\<lparr>modelPath := path\<rparr>\<rparr>"] by simp
  with h initialize_loads_configured_path [of e' rt2]
  show "LoadModel path (gpuLayers (config e)) \<in> set (snd (snd (initialize rt2 e')))"
    by simp
qed

theorem handleLoadModel_loaded_witness:
  "isModelLoaded engine_ready \<and>
   handleLoadModel (runtime_ok ''x'') engine_ready ''/models/b.gguf'' =
     ((True, ''Model loaded successfully''),
      engine_ready\<lparr>config := config0\<lparr>modelPath := ''/models/b.gguf''\<rparr>\<rparr>,
      [ConsoleLog ''Model already loaded'']) \<and>
   model (engine_ready\<lparr>config := config0\<lparr>modelPath := ''/models/b.gguf''\<rparr>\<rparr>) = Some model0 \<and>
   LoadModel ''/models/b.gguf'' 33
     \<in> set (snd (snd (initialize (runtime_ok ''x'')
          (fst (snd (unload (runtime_ok ''x'')
             (engine_ready\<lparr>config := config0\<lparr>modelPath := ''/models/b.gguf''\<rparr>\<rparr>)))))))"
proof -
  have u: "model (fst (snd (unload (runtime_ok ''x'')
             (engine_ready\<lparr>config := config0\<lparr>modelPath := ''/models/b.gguf''\<rparr>\<rparr>)))) = None"
    by (simp add: unload_def unload_try_def engine_ready_def runtime_ok_def)
  have g: "rt_getLlama (runtime_ok ''x'') = Inr ()"
    by (simp add: runtime_ok_def)
  have c: "config engine_ready = config0" "gpuLayers config0 = 33"
    "model engine_ready = Some model0"
    by (simp_all add: engine_ready_def config0_def)
  from handleLoadModel_loaded [OF isModelLoaded_engine_ready, of "runtime_ok ''x''" "''/models/b.gguf''"]
       isModelLoaded_engine_ready u g c
  show ?thesis by simp
qed

subsection \<open>A load that fails after the model was loaded\<close>

text \<open>
  Claim C2 says that a failing \<^verbatim>\<open>initialize\<close> fails with ModelLoadError and leaves the
  engine in the Unloaded state. The first half holds on every failing path; the second
  holds when \<^verbatim>\<open>getLlama\<close> or \<^verbatim>\<open>loadModel\<close> throws.
\<close>

lemma initialize_failure_message:
  assumes "fst (initialize rt e) = Inl err"
  shows "\<exists>msg. err = JsError (ModelLoadError msg)"
  using assms
  by (auto simp: initialize_def initialize_catch_def Let_def split: if_splits sum.splits)

lemma initialize_early_failure:
  assumes "model e = None"
    and "rt_getLlama rt = Inl msg \<or> rt_loadModel rt (modelPath (config e)) (gpuLayers (config e)) = Inl msg'"
  shows "fst (snd (initialize rt e)) = e\<lparr>isLoading := False\<rparr>"
  using assms
  by (auto simp: initialize_def initialize_catch_def Let_def split: sum.splits)

text \<open>
  Claim C2, at the input where it fails. \<^verbatim>\<open>loadModel\<close> succeeds and \<^verbatim>\<open>createContext\<close>
  throws: the call fails with ModelLoadError, and the engine keeps the model it had
  assigned to \<^verbatim>\<open>this.model\<close>. It is neither Unloaded nor loaded, and a later
  \<^verbatim>\<open>initialize\<close>, with a runtime in which everything would succeed, returns at the
  guard \<^verbatim>\<open>if (this.model)\<close> without creating the context or the session.
\<close>

theorem initialize_context_failure:
  "initialize runtime_context_fails engine0 =
     (Inl (JsError ''Failed to initialize LLM engine: out of memory''),
      engine0\<lparr>model := Some model0\<rparr>,
      [ConsoleLog ''Loading model from: /models/a.gguf'', GetLlama,
       LoadModel ''/models/a.gguf'' 33, CreateContext model0 4096 512,
       ConsoleError ''Failed to initialize LLM engine:'' ''out of memory'']) \<and>
   \<not> unloaded (engine0\<lparr>model := Some model0\<rparr>) \<and>
   \<not> isModelLoaded (engine0\<lparr>model := Some model0\<rparr>) \<and>
   initialize (runtime_ok ''x'') (engine0\<lparr>model := Some model0\<rparr>) =
     (Inr (), engine0\<lparr>model := Some model0\<rparr>, [ConsoleLog ''Model already loaded''])"
  by (simp add: initialize_def initialize_catch_def runtime_context_fails_def runtime_ok_def
        engine0_def config0_def model0_def ModelLoadError_def unloaded_def isModelLoaded_def)


subsection \<open>The chunk loop\<close>

declare stream_loop.simps [simp del]

lemma chunkSize_pos: "0 < chunkSize"
  by (simp add: chunkSize_def)

lemma substring_chunk:
  assumes "i < length s"
  shows "substring s i (i + n) = take n (drop i s)"
  using assms by (simp add: substring_def Let_def min_def max_def)

lemma chunkCount_less: "j < chunkCount out \<longleftrightarrow> chunkSize * j < length out"
  unfolding chunkCount_def chunkSize_def
  by (simp add: less_divide_eq_numeral1) linarith

lemma stream_loop_step:
  assumes "chunkSize * j < length out" and "\<not> isCancelled (checkpoint env e3 j)"
  shows "stream_loop env t0 t1 out (chunkSize * j) (checkpoint env e3 j) =
           Chunk (take chunkSize (drop (chunkSize * j) out))
             # stream_loop env t0 t1 out (chunkSize * Suc j) (checkpoint env e3 (Suc j))"
proof -
  have d: "chunkSize * j div chunkSize = j"
    using chunkSize_pos by simp
  have a: "chunkSize * j + chunkSize = chunkSize * Suc j"
    by simp
  have "stream_loop env t0 t1 out (chunkSize * j) (checkpoint env e3 j) =
          Chunk (substring out (chunkSize * j) (chunkSize * j + chunkSize))
            # stream_loop env t0 t1 out (chunkSize * j + chunkSize)
                (env (2 + chunkSize * j div chunkSize) (checkpoint env e3 j))"
    using assms by (subst stream_loop.simps) simp
  moreover have "substring out (chunkSize * j) (chunkSize * j + chunkSize) =
                   take chunkSize (drop (chunkSize * j) out)"
    by (rule substring_chunk [OF assms(1)])
  ultimately show ?thesis
    by (simp only: d a checkpoint.simps)
qed

lemma stream_loop_cancelled:
  assumes "chunkSize * j < length out" and "j0 \<le> j"
    and "isCancelled (checkpoint env e3 j)"
    and "\<forall>j'. j0 \<le> j' \<and> j' < j \<longrightarrow> \<not> isCancelled (checkpoint env e3 j')"
  shows "stream_loop env t0 t1 out (chunkSize * j0) (checkpoint env e3 j0) =
           map (\<lambda>m. Chunk (take chunkSize (drop (chunkSize * m) out))) [j0..<j]
             @ [Error CancelledError]"
  using assms
proof (induction "j - j0" arbitrary: j0)
  case 0
  then have "j0 = j" by simp
  with 0 show ?case
    by (subst stream_loop.simps) simp
next
  case (Suc d)
  then have lt: "j0 < j" by simp
  then have "chunkSize * j0 < chunkSize * j"
    using chunkSize_pos by simp
  from this Suc.prems(1) have b: "chunkSize * j0 < length out"
    by (rule less_trans)
  from Suc.prems lt have nc: "\<not> isCancelled (checkpoint env e3 j0)" by simp
  have ih: "stream_loop env t0 t1 out (chunkSize * Suc j0) (checkpoint env e3 (Suc j0)) =
           map (\<lambda>m. Chunk (take chunkSize (drop (chunkSize * m) out))) [Suc j0..<j]
             @ [Error CancelledError]"
    using Suc.hyps(2) Suc.prems lt by (intro Suc.hyps(1)) auto
  from lt have "[j0..<j] = j0 # [Suc j0..<j]"
    by (simp add: upt_conv_Cons)
  with stream_loop_step [OF b nc] ih show ?case by simp
qed

lemma stream_loop_completed:
  assumes "\<forall>j'. j0 \<le> j' \<and> j' < chunkCount out \<longrightarrow> \<not> isCancelled (checkpoint env e3 j')"
    and "j0 \<le> chunkCount out"
  shows "stream_loop env t0 t1 out (chunkSize * j0) (checkpoint env e3 j0) =
           map (\<lambda>m. Chunk (take chunkSize (drop (chunkSize * m) out))) [j0..<chunkCount out]
             @ [End (tokenCount out) (t1 - t0) (length out)]"
  using assms
proof (induction "chunkCount out - j0" arbitrary: j0)
  case 0
  then have "j0 = chunkCount out" by simp
  then have "\<not> chunkSize * j0 < length out"
    using chunkCount_less [of j0 out] by simp
  with \<open>j0 = chunkCount out\<close> show ?case
    by (subst stream_loop.simps) simp
next
  case (Suc d)
  then have lt: "j0 < chunkCount out" by simp
  then have b: "chunkSize * j0 < length out"
    by (simp add: chunkCount_less)
  from Suc.prems lt have nc: "\<not> isCancelled (checkpoint env e3 j0)" by simp
  have ih: "stream_loop env t0 t1 out (chunkSize * Suc j0) (checkpoint env e3 (Suc j0)) =
           map (\<lambda>m. Chunk (take chunkSize (drop (chunkSize * m) out))) [Suc j0..<chunkCount out]
             @ [End (tokenCount out) (t1 - t0) (length out)]"
    using Suc.hyps(2) Suc.prems lt by (intro Suc.hyps(1)) auto
  from lt have "[j0..<chunkCount out] = j0 # [Suc j0..<chunkCount out]"
    by (simp add: upt_conv_Cons)
  with stream_loop_step [OF b nc] ih show ?case by simp
qed

lemma take_chunks:
  assumes "j \<le> chunkCount out"
  shows "map Chunk (take j (chunks out)) =
           map (\<lambda>m. Chunk (take chunkSize (drop (chunkSize * m) out))) [0..<j]"
  using assms by (simp add: chunks_def take_map)


lemma concat_slices:
  "concat (map (\<lambda>j. take c (drop (c * j) s)) [0..<k]) = take (c * k) s"
proof (induction k)
  case 0
  show ?case by simp
next
  case (Suc k)
  have "take (c + c * k) s = take (c * k) s @ take c (drop (c * k) s)"
    using take_add [of "c * k" c s] by (simp add: add.commute)
  with Suc show ?case by simp
qed

lemma concat_chunks: "concat (chunks out) = out"
proof -
  have "\<not> chunkSize * chunkCount out < length out"
    using chunkCount_less [of "chunkCount out" out] by simp
  then show ?thesis
    by (simp add: chunks_def concat_slices)
qed

lemma length_chunks: "length (chunks out) = chunkCount out"
  by (simp add: chunks_def)

lemma payloads_chunks: "payloads (map Chunk cs @ evs) = cs @ payloads evs"
  by (induction cs) simp_all

lemma terminal_chunks: "filter isTerminal (map Chunk cs) = []"
  by (induction cs) simp_all

lemma all_chunks: "list_all isChunk (map Chunk cs)"
  by (induction cs) simp_all

lemma stream_ordered_shape:
  assumes "isTerminal t"
  shows "stream_ordered (Start p # map Chunk cs @ [t])"
  using assms by (simp add: stream_ordered_def all_chunks)

text \<open>The loop from the start: the chunks yielded before the first check that finds the
  flag set, then the cancellation error; or every chunk, then \<open>End\<close>.\<close>

lemma stream_loop_first_cancel:
  assumes "j < chunkCount out" and "isCancelled (checkpoint env e3 j)"
    and "\<forall>j' < j. \<not> isCancelled (checkpoint env e3 j')"
  shows "stream_loop env t0 t1 out 0 e3 = map Chunk (take j (chunks out)) @ [Error CancelledError]"
proof -
  from assms(1) have b: "chunkSize * j < length out"
    by (simp add: chunkCount_less)
  from assms(1) have "j \<le> chunkCount out" by simp
  note tk = take_chunks [OF this]
  from stream_loop_cancelled [OF b _ assms(2), of 0 t0 t1] assms(3) tk
  show ?thesis by simp
qed

lemma stream_loop_no_cancel:
  assumes "\<forall>j < chunkCount out. \<not> isCancelled (checkpoint env e3 j)"
  shows "stream_loop env t0 t1 out 0 e3 =
           map Chunk (chunks out) @ [End (tokenCount out) (t1 - t0) (length out)]"
proof -
  have "map Chunk (chunks out) =
          map (\<lambda>m. Chunk (take chunkSize (drop (chunkSize * m) out))) [0..<chunkCount out]"
    by (simp add: chunks_def)
  with stream_loop_completed [of 0 out env e3 t0 t1] assms
  show ?thesis by simp
qed

lemma stream_loop_shape:
  "(\<exists>j < chunkCount out.
      stream_loop env t0 t1 out 0 e3 = map Chunk (take j (chunks out)) @ [Error CancelledError]) \<or>
   stream_loop env t0 t1 out 0 e3 =
     map Chunk (chunks out) @ [End (tokenCount out) (t1 - t0) (length out)]"
proof (cases "\<exists>j < chunkCount out. isCancelled (checkpoint env e3 j)")
  case True
  define P where "P j \<longleftrightarrow> j < chunkCount out \<and> isCancelled (checkpoint env e3 j)" for j
  from True have "\<exists>j. P j" by (auto simp: P_def)
  then obtain j where j: "P j" and least: "\<forall>j' < j. \<not> P j'"
    using exists_least_iff [of P] by blast
  from j have a: "j < chunkCount out" and b: "isCancelled (checkpoint env e3 j)"
    by (simp_all add: P_def)
  from least a have "\<forall>j' < j. \<not> isCancelled (checkpoint env e3 j')"
    by (auto simp: P_def)
  from stream_loop_first_cancel [OF a b this] a show ?thesis by blast
next
  case False
  then have "\<forall>j < chunkCount out. \<not> isCancelled (checkpoint env e3 j)" by blast
  from stream_loop_no_cancel [OF this] show ?thesis by blast
qed

lemma generateStream_accepted:
  assumes "stream_begin e = Inr e1"
  shows "generateStream rt env e request t0 t1 =
           Start (prompt request)
             # (case stream_prompt rt env e1 request of
                  (Inl msg, e3) \<Rightarrow> if \<not> isCancelled e3 then [Error (GenerationError msg)] else []
                | (Inr out, e3) \<Rightarrow> stream_loop env t0 t1 out 0 e3)"
  using assms by (simp add: generateStream_def)

subsection \<open>Cancellation of a streaming generation\<close>

text \<open>
  Claim C5, amended. Take a streaming generation that was accepted and whose prompt
  returned the text \<open>out\<close>, so that it reaches the checkpoints; other callers may do
  anything to the engine while it is suspended. When the check before chunk \<open>j\<close> is the
  first to find the flag set, the events are \<open>Start\<close>, the \<open>j\<close> chunks before it, and
  one \<open>Error\<close> with the cancellation message: that \<open>Error\<close> is the only terminal event
  and the last event, so no chunk and no \<open>End\<close> follows it. When no check finds the flag
  set (a \<^verbatim>\<open>cancel()\<close> that came after the last check, or one whose flag another
  generation reset before the next check), the generation completes normally: \<open>Start\<close>,
  every chunk, \<open>End\<close>. There is no third outcome.
\<close>

theorem cancellation_observed:
  assumes "stream_begin e = Inr e1"
    and "stream_prompt rt env e1 request = (Inr out, e3)"
  shows "(j < chunkCount out \<and> isCancelled (checkpoint env e3 j) \<and>
            (\<forall>j' < j. \<not> isCancelled (checkpoint env e3 j')) \<longrightarrow>
            generateStream rt env e request t0 t1 =
              Start (prompt request) # map Chunk (take j (chunks out)) @ [Error CancelledError] \<and>
            filter isTerminal (generateStream rt env e request t0 t1) = [Error CancelledError] \<and>
            last (generateStream rt env e request t0 t1) = Error CancelledError) \<and>
         ((\<forall>j < chunkCount out. \<not> isCancelled (checkpoint env e3 j)) \<longrightarrow>
            generateStream rt env e request t0 t1 =
              Start (prompt request) # map Chunk (chunks out)
                @ [End (tokenCount out) (t1 - t0) (length out)]) \<and>
         ((\<exists>j < chunkCount out.
             generateStream rt env e request t0 t1 =
               Start (prompt request) # map Chunk (take j (chunks out))
                 @ [Error CancelledError]) \<or>
          generateStream rt env e request t0 t1 =
            Start (prompt request) # map Chunk (chunks out)
              @ [End (tokenCount out) (t1 - t0) (length out)])"
proof -
  have g: "generateStream rt env e request t0 t1 =
             Start (prompt request) # stream_loop env t0 t1 out 0 e3"
    by (simp add: generateStream_accepted [OF assms(1)] assms(2))
  show ?thesis
  proof (intro conjI impI)
    assume h: "j < chunkCount out \<and> isCancelled (checkpoint env e3 j) \<and>
            (\<forall>j' < j. \<not> isCancelled (checkpoint env e3 j'))"
    then have l: "stream_loop env t0 t1 out 0 e3 =
                    map Chunk (take j (chunks out)) @ [Error CancelledError]"
      by (intro stream_loop_first_cancel) simp_all
    with g show "generateStream rt env e request t0 t1 =
              Start (prompt request) # map Chunk (take j (chunks out)) @ [Error CancelledError]"
      by simp
    from g l show "filter isTerminal (generateStream rt env e request t0 t1) = [Error CancelledError]"
      by (simp add: terminal_chunks)
    from g l show "last (generateStream rt env e request t0 t1) = Error CancelledError"
      by simp
  next
    assume "\<forall>j < chunkCount out. \<not> isCancelled (checkpoint env e3 j)"
    from stream_loop_no_cancel [OF this] g
    show "generateStream rt env e request t0 t1 =
              Start (prompt request) # map Chunk (chunks out)
                @ [End (tokenCount out) (t1 - t0) (length out)]"
      by simp
  next
    from stream_loop_shape [of out env t0 t1 e3] g
    show "(\<exists>j < chunkCount out.
             generateStream rt env e request t0 t1 =
               Start (prompt request) # map Chunk (take j (chunks out))
                 @ [Error CancelledError]) \<or>
          generateStream rt env e request t0 t1 =
            Start (prompt request) # map Chunk (chunks out)
              @ [End (tokenCount out) (t1 - t0) (length out)]"
      by auto
  qed
qed

lemma stream_begin_engine_ready: "stream_begin engine_ready = Inr engine_ready"
  by (simp add: stream_begin_def engine_ready_def)

lemma stream_prompt_engine_ready:
  assumes "2 \<le> k"
  shows "stream_prompt (runtime_ok a) (cancel_during k) engine_ready request0 = (Inr a, engine_ready)"
  using assms by (simp add: stream_prompt_def cancel_during_def engine_ready_def runtime_ok_def)

lemma chunkCount_long_answer: "chunkCount long_answer = 3"
  by (simp add: chunkCount_def long_answer_def chunkSize_def)

lemma chunks_long_answer:
  "chunks long_answer =
     [replicate 50 (CHR ''a''), replicate 50 (CHR ''a''), replicate 20 (CHR ''a'')]"
  by (simp add: chunks_def chunkCount_long_answer upt_rec)
     (simp add: long_answer_def chunkSize_def)

theorem cancellation_observed_witness:
  "generateStream (runtime_ok long_answer) (cancel_during 3) engine_ready request0 100 250 =
     [Start ''hello'', Chunk (replicate 50 (CHR ''a'')), Chunk (replicate 50 (CHR ''a'')),
      Error ''Generation cancelled by user''] \<and>
   generateStream (runtime_ok long_answer) (cancel_during 4) engine_ready request0 100 250 =
     [Start ''hello'', Chunk (replicate 50 (CHR ''a'')), Chunk (replicate 50 (CHR ''a'')),
      Chunk (replicate 20 (CHR ''a'')), End 30 150 120]"
proof -
  have nc: "\<not> isCancelled engine_ready" "isCancelled (cancel engine_ready)"
    by (simp_all add: engine_ready_def cancel_def)
  have h3: "Suc (Suc 0) < chunkCount long_answer \<and>
            isCancelled (checkpoint (cancel_during 3) engine_ready (Suc (Suc 0))) \<and>
            (\<forall>j' < Suc (Suc 0). \<not> isCancelled (checkpoint (cancel_during 3) engine_ready j'))"
    by (simp add: chunkCount_long_answer less_Suc_eq cancel_during_def nc)
  have h4: "\<forall>j < chunkCount long_answer.
              \<not> isCancelled (checkpoint (cancel_during 4) engine_ready j)"
    by (simp add: chunkCount_long_answer numeral_3_eq_3 less_Suc_eq cancel_during_def nc)
  have v: "prompt request0 = ''hello''" "tokenCount long_answer = 30" "length long_answer = 120"
    by (simp_all add: request0_def tokenCount_def long_answer_def)
  from cancellation_observed [OF stream_begin_engine_ready stream_prompt_engine_ready,
         of 3 "Suc (Suc 0)" long_answer 100 250] h3
  have a: "generateStream (runtime_ok long_answer) (cancel_during 3) engine_ready request0 100 250 =
     [Start ''hello'', Chunk (replicate 50 (CHR ''a'')), Chunk (replicate 50 (CHR ''a'')),
      Error ''Generation cancelled by user'']"
    by (simp add: chunks_long_answer v CancelledError_def)
  from cancellation_observed [OF stream_begin_engine_ready stream_prompt_engine_ready,
         of 4 _ long_answer 100 250] h4
  have b: "generateStream (runtime_ok long_answer) (cancel_during 4) engine_ready request0 100 250 =
     [Start ''hello'', Chunk (replicate 50 (CHR ''a'')), Chunk (replicate 50 (CHR ''a'')),
      Chunk (replicate 20 (CHR ''a'')), End 30 150 120]"
    by (simp add: chunks_long_answer v)
  from a b show ?thesis by simp
qed


lemma checkpoint_cancel_then_second:
  "checkpoint cancel_then_second e j = e"
  by (induction j) (simp_all add: cancel_then_second_def)

lemma stream_prompt_cancel_then_second:
  "stream_prompt (runtime_ok a) cancel_then_second engine_ready request0
     = (Inr a, engine_ready)"
  by (simp add: stream_prompt_def cancel_then_second_def second_accept_def stream_begin_def
        cancel_def engine_ready_def runtime_ok_def)

text \<open>
  Claim C5, as stated, at an input where it fails. \<^verbatim>\<open>cancel()\<close> is called right after
  \<open>Start\<close>, with all three checkpoints still ahead; while the prompt is awaited another
  generation is accepted and resets the flag (lines 148 and 215). No checkpoint finds
  the flag set and the cancelled generation completes normally, although the
  cancellation did not come after the last checkpoint.
\<close>

theorem cancellation_reset_counterexample:
  "isCancelled (cancel_then_second 0 engine_ready) \<and>
   chunkCount long_answer = 3 \<and>
   generateStream (runtime_ok long_answer) cancel_then_second engine_ready request0 100 250 =
     [Start ''hello'', Chunk (replicate 50 (CHR ''a'')), Chunk (replicate 50 (CHR ''a'')),
      Chunk (replicate 20 (CHR ''a'')), End 30 150 120]"
proof -
  have c: "isCancelled (cancel_then_second 0 engine_ready)"
    by (simp add: cancel_then_second_def cancel_def)
  have "\<forall>j < chunkCount long_answer.
          \<not> isCancelled (checkpoint cancel_then_second engine_ready j)"
    by (simp add: checkpoint_cancel_then_second engine_ready_def)
  from stream_loop_no_cancel [OF this, of 100 250]
  have "generateStream (runtime_ok long_answer) cancel_then_second engine_ready request0 100 250 =
          Start (prompt request0) # map Chunk (chunks long_answer)
            @ [End (tokenCount long_answer) (250 - 100) (length long_answer)]"
    by (simp add: generateStream_accepted [OF stream_begin_engine_ready]
          stream_prompt_cancel_then_second)
  moreover have "prompt request0 = ''hello''" "tokenCount long_answer = 30"
    "length long_answer = 120"
    by (simp_all add: request0_def tokenCount_def long_answer_def)
  ultimately
  have "generateStream (runtime_ok long_answer) cancel_then_second engine_ready request0 100 250 =
     [Start ''hello'', Chunk (replicate 50 (CHR ''a'')), Chunk (replicate 50 (CHR ''a'')),
      Chunk (replicate 20 (CHR ''a'')), End 30 150 120]"
    by (simp add: chunks_long_answer)
  with c chunkCount_long_answer show ?thesis
    by (intro conjI)
qed

subsection \<open>The order of the events of a streaming call\<close>

lemma checkpoint_quiet: "checkpoint quiet e j = e"
  by (induction j) (simp_all add: quiet_def)

lemma stream_prompt_quiet:
  "stream_prompt (runtime_ok a) quiet engine_ready request = (Inr a, engine_ready)"
  by (simp add: stream_prompt_def quiet_def engine_ready_def runtime_ok_def)

lemma generateStream_quiet_ready:
  "generateStream (runtime_ok a) quiet engine_ready request t0 t1 =
     Start (prompt request) # map Chunk (chunks a) @ [End (tokenCount a) (t1 - t0) (length a)]"
proof -
  have "\<forall>j < chunkCount a. \<not> isCancelled (checkpoint quiet engine_ready j)"
    by (simp add: checkpoint_quiet engine_ready_def)
  from stream_loop_no_cancel [OF this] show ?thesis
    by (simp add: generateStream_accepted [OF stream_begin_engine_ready] stream_prompt_quiet)
qed

lemma chunks_short:
  assumes "0 < length a" and "length a \<le> chunkSize"
  shows "chunks a = [a]"
proof -
  have "chunkCount a = 1"
    using assms unfolding chunkCount_def chunkSize_def
    by (intro div_nat_eqI) (simp_all add: Suc_le_eq)
  with assms(2) show ?thesis
    by (simp add: chunks_def)
qed

text \<open>A rejected call: \<^verbatim>\<open>generateStream\<close> on an engine with no session yields one
  \<open>Error\<close> and nothing else, as the specification asks of a rejection.\<close>

lemma stream_rejected_single_error:
  "generateStream (runtime_ok ''x'') quiet engine0 request0 0 1
     = [Error ''LLM engine not initialized. Call initialize() first.''] \<and>
   \<not> stream_ordered (generateStream (runtime_ok ''x'') quiet engine0 request0 0 1)"
  by (simp add: generateStream_def stream_begin_def engine0_def stream_ordered_def
        NotLoadedError_def)

lemma stream_begin_rejected:
  assumes "stream_begin e = Inl ev"
  shows "ev = Error NotLoadedError \<or> ev = Error StillLoadingError"
  using assms by (auto simp: stream_begin_def split: option.splits if_splits)

lemma prefix_concat_take: "prefix (concat (take j xss)) (concat xss)"
proof -
  have "concat xss = concat (take j xss) @ concat (drop j xss)"
    by (simp flip: concat_append)
  then show ?thesis
    by (metis prefixI)
qed

lemma stream_loop_ordered:
  "\<exists>cs t. stream_loop env t0 t1 out 0 e3 = map Chunk cs @ [t] \<and> isTerminal t \<and>
          prefix (concat cs) out"
proof -
  from stream_loop_shape [of out env t0 t1 e3] show ?thesis
  proof
    assume "\<exists>j<chunkCount out.
       stream_loop env t0 t1 out 0 e3 = map Chunk (take j (chunks out)) @ [Error CancelledError]"
    then obtain j where
      "stream_loop env t0 t1 out 0 e3 = map Chunk (take j (chunks out)) @ [Error CancelledError]"
      by blast
    moreover have "prefix (concat (take j (chunks out))) out"
      using prefix_concat_take [of j "chunks out"] by (simp add: concat_chunks)
    ultimately show ?thesis
      by (intro exI [of _ "take j (chunks out)"] exI [of _ "Error CancelledError"]) simp
  next
    assume "stream_loop env t0 t1 out 0 e3 =
              map Chunk (chunks out) @ [End (tokenCount out) (t1 - t0) (length out)]"
    then show ?thesis
      by (intro exI [of _ "chunks out"] exI [of _ "End (tokenCount out) (t1 - t0) (length out)"])
         (simp add: concat_chunks)
  qed
qed

text \<open>
  The runs on which the order holds. A rejected call (no session, or the engine still
  loading) yields exactly one event, an \<open>Error\<close>. An accepted call yields \<open>Start\<close> first
  and, unless its prompt throws while the cancellation flag is set, its events are one
  \<open>Start\<close>, then chunks only, then exactly one terminal event (\<open>End\<close> or \<open>Error\<close>), which
  is last. When the prompt returned the text \<open>out\<close>, the chunks taken in order and
  concatenated are a prefix of \<open>out\<close>.
\<close>

lemma stream_event_order:
  "(stream_begin e = Inl ev \<longrightarrow>
      generateStream rt env e request t0 t1 = [ev] \<and>
      (ev = Error NotLoadedError \<or> ev = Error StillLoadingError)) \<and>
   (stream_begin e = Inr e1 \<and>
      \<not> (isl (fst (stream_prompt rt env e1 request)) \<and>
         isCancelled (snd (stream_prompt rt env e1 request))) \<longrightarrow>
      hd (generateStream rt env e request t0 t1) = Start (prompt request) \<and>
      stream_ordered (generateStream rt env e request t0 t1)) \<and>
   (stream_begin e = Inr e1 \<and> fst (stream_prompt rt env e1 request) = Inr out \<longrightarrow>
      prefix (concat (payloads (generateStream rt env e request t0 t1))) out)"
proof (intro conjI impI)
  assume "stream_begin e = Inl ev"
  then show "generateStream rt env e request t0 t1 = [ev]"
    by (simp add: generateStream_def)
next
  assume "stream_begin e = Inl ev"
  then show "ev = Error NotLoadedError \<or> ev = Error StillLoadingError"
    by (rule stream_begin_rejected)
next
  assume "stream_begin e = Inr e1 \<and>
      \<not> (isl (fst (stream_prompt rt env e1 request)) \<and>
         isCancelled (snd (stream_prompt rt env e1 request)))"
  then show "hd (generateStream rt env e request t0 t1) = Start (prompt request)"
    by (simp add: generateStream_accepted)
next
  assume h: "stream_begin e = Inr e1 \<and>
      \<not> (isl (fst (stream_prompt rt env e1 request)) \<and>
         isCancelled (snd (stream_prompt rt env e1 request)))"
  obtain res e3 where sp: "stream_prompt rt env e1 request = (res, e3)"
    by (cases "stream_prompt rt env e1 request")
  show "stream_ordered (generateStream rt env e request t0 t1)"
  proof (cases res)
    case (Inl msg)
    with h sp have "generateStream rt env e request t0 t1 =
                      Start (prompt request) # map Chunk [] @ [Error (GenerationError msg)]"
      by (simp add: generateStream_accepted)
    then show ?thesis
      by (simp only: stream_ordered_shape isTerminal.simps)
  next
    case (Inr out)
    obtain cs t where "stream_loop env t0 t1 out 0 e3 = map Chunk cs @ [t]" and "isTerminal t"
      using stream_loop_ordered [of env t0 t1 out e3] by blast
    with h sp Inr have "generateStream rt env e request t0 t1 =
                      Start (prompt request) # map Chunk cs @ [t]" and "isTerminal t"
      by (simp_all add: generateStream_accepted)
    then show ?thesis
      by (simp only: stream_ordered_shape)
  qed
next
  assume h: "stream_begin e = Inr e1 \<and> fst (stream_prompt rt env e1 request) = Inr out"
  obtain e3 where sp: "stream_prompt rt env e1 request = (Inr out, e3)"
    using h by (cases "stream_prompt rt env e1 request") simp
  obtain cs t where "stream_loop env t0 t1 out 0 e3 = map Chunk cs @ [t]" and "isTerminal t"
    and p: "prefix (concat cs) out"
    using stream_loop_ordered [of env t0 t1 out e3] by blast
  with h sp have g: "generateStream rt env e request t0 t1 =
                      Start (prompt request) # map Chunk cs @ [t]" and t: "isTerminal t"
    by (simp_all add: generateStream_accepted)
  from t have "payloads [t] = []"
    by (cases t) simp_all
  with g have "payloads (generateStream rt env e request t0 t1) = cs"
    by (simp add: payloads_chunks)
  with p show "prefix (concat (payloads (generateStream rt env e request t0 t1))) out"
    by simp
qed

lemma stream_event_order_example:
  "generateStream (runtime_ok ''x'') quiet engine0 request0 0 1
     = [Error ''LLM engine not initialized. Call initialize() first.''] \<and>
   hd (generateStream (runtime_ok long_answer) (cancel_during 3) engine_ready request0 100 250)
     = Start ''hello'' \<and>
   stream_ordered
     (generateStream (runtime_ok long_answer) (cancel_during 3) engine_ready request0 100 250) \<and>
   prefix
     (concat (payloads
        (generateStream (runtime_ok long_answer) (cancel_during 3) engine_ready request0 100 250)))
     long_answer"
proof -
  have r: "stream_begin engine0 = Inl (Error ''LLM engine not initialized. Call initialize() first.'')"
    by (simp add: stream_begin_def engine0_def NotLoadedError_def)
  have a: "stream_begin engine_ready = Inr engine_ready"
    by (rule stream_begin_engine_ready)
  have p: "stream_prompt (runtime_ok long_answer) (cancel_during 3) engine_ready request0
             = (Inr long_answer, engine_ready)"
    by (rule stream_prompt_engine_ready) simp
  have q: "prompt request0 = ''hello''"
    by (simp add: request0_def)
  from stream_event_order [of engine0 _ "runtime_ok ''x''" quiet request0 0 1] r
  have 1: "generateStream (runtime_ok ''x'') quiet engine0 request0 0 1
     = [Error ''LLM engine not initialized. Call initialize() first.'']"
    by simp
  from stream_event_order [of engine_ready _ "runtime_ok long_answer" "cancel_during 3"
         request0 100 250 engine_ready long_answer] a p q
  have 2: "hd (generateStream (runtime_ok long_answer) (cancel_during 3) engine_ready request0 100 250)
     = Start ''hello'' \<and>
   stream_ordered
     (generateStream (runtime_ok long_answer) (cancel_during 3) engine_ready request0 100 250) \<and>
   prefix
     (concat (payloads
        (generateStream (runtime_ok long_answer) (cancel_during 3) engine_ready request0 100 250)))
     long_answer"
    by simp
  from 1 2 show ?thesis by simp
qed

text \<open>
  Claim C3, at the input where it fails. The request is accepted and \<open>Start\<close> is
  yielded; \<^verbatim>\<open>cancel()\<close> is called while the prompt is awaited, and the prompt then
  throws. The \<^verbatim>\<open>catch\<close> block of lines 263 to 270 yields its \<open>Error\<close> only when the flag
  is not set, so the generator returns having yielded \<open>Start\<close> alone: the sequence has
  no terminal event, neither \<open>End\<close> nor \<open>Error\<close>. The synchronous \<^verbatim>\<open>generate\<close>, in the same
  situation, reports the cancellation (lines 186 to 189).
\<close>

theorem stream_cancelled_failure_no_terminal:
  "generateStream runtime_prompt_fails (cancel_during 1) engine_ready request0 0 1
     = [Start ''hello''] \<and>
   filter isTerminal
     (generateStream runtime_prompt_fails (cancel_during 1) engine_ready request0 0 1) = [] \<and>
   \<not> stream_ordered
     (generateStream runtime_prompt_fails (cancel_during 1) engine_ready request0 0 1) \<and>
   fst (generate runtime_prompt_fails cancel engine_ready request0 0 1)
     = Inl (JsError ''Generation cancelled by user'')"
proof -
  have s: "generateStream runtime_prompt_fails (cancel_during 1) engine_ready request0 0 1
             = [Start ''hello'']"
    by (simp add: generateStream_def stream_begin_def stream_prompt_def Let_def
          cancel_during_def engine_ready_def runtime_prompt_fails_def runtime_ok_def cancel_def
          request0_def)
  have g: "fst (generate runtime_prompt_fails cancel engine_ready request0 0 1)
             = Inl (JsError ''Generation cancelled by user'')"
    by (simp add: generate_def generate_begin_def generate_resume_def Let_def engine_ready_def
          runtime_prompt_fails_def runtime_ok_def cancel_def CancelledError_def)
  from s g show ?thesis
    by (simp add: stream_ordered_def)
qed

subsection \<open>Streaming against the synchronous form\<close>

lemma show_nat_1: "show_nat 1 = ''1''"
  by code_simp

lemma show_int_150: "show_int 150 = ''150''"
  by code_simp

lemma codeMatch_fenced_answer: "codeMatch fenced_answer = Some ''x''"
  by (simp add: fenced_answer_def fence_def match_at_def is_word_char_def newline_def
        backtick_def)

text \<open>
  Claim C4, as stated, at an input where it fails. The model answers with a fenced code
  block. The uncancelled, successful stream carries the whole answer, fences included,
  in its one chunk; \<^verbatim>\<open>generate\<close> returns as \<^verbatim>\<open>code\<close> the text inside the fence.
\<close>

theorem stream_vs_generate_counterexample:
  "generateStream (runtime_ok fenced_answer) quiet engine_ready request0 100 250
     = [Start ''hello'', Chunk fenced_answer, End 3 150 11] \<and>
   fst (generate (runtime_ok fenced_answer) id engine_ready request0 100 250)
     = Inr \<lparr>code = ''x'', explanation = ''Generated 1 lines of code in 150ms'',
            tokens = 3, generationTime = 150\<rparr> \<and>
   concat (payloads (generateStream (runtime_ok fenced_answer) quiet engine_ready request0 100 250))
     \<noteq> ''x''"
proof -
  have l: "length fenced_answer = 11"
    by (simp add: fenced_answer_def fence_def)
  then have c: "chunks fenced_answer = [fenced_answer]"
    by (intro chunks_short) (simp_all add: chunkSize_def)
  have s: "generateStream (runtime_ok fenced_answer) quiet engine_ready request0 100 250
     = [Start ''hello'', Chunk fenced_answer, End 3 150 11]"
    by (simp add: generateStream_quiet_ready c l tokenCount_def request0_def)
  have g: "fst (generate (runtime_ok fenced_answer) id engine_ready request0 100 250)
     = Inr \<lparr>code = ''x'', explanation = ''Generated 1 lines of code in 150ms'',
            tokens = 3, generationTime = 150\<rparr>"
    by (simp add: generate_def generate_begin_def generate_resume_def generate_result_def
          engine_ready_def runtime_ok_def codeMatch_fenced_answer tokenCount_def l
          lineCount_def newline_def show_nat_1 show_int_150 Let_def)
  have n: "fenced_answer \<noteq> ''x''"
    by (simp add: fenced_answer_def fence_def)
  from s g n show ?thesis by simp
qed


lemma promptOptions_config:
  assumes "config a = config b"
  shows "promptOptions a request = promptOptions b request"
  unfolding promptOptions_def assms by (rule refl)

lemma End_not_in_cancelled:
  "End n d l \<notin> set (map Chunk cs @ [Error m])"
  by (induction cs) simp_all

lemma End_in_completed:
  assumes "End n d l \<in> set (map Chunk cs @ [End n' d' l'])"
  shows "l = l'"
  using assms by (induction cs) auto

lemma generate_accepted:
  assumes "session e = Some s" and "\<not> isLoading e"
    and "rt_prompt rt s (fullPrompt request) (promptOptions e request) = Inr out"
  shows "generate rt env e request t0 t1 =
           (Inr (generate_result out (t1 - t0)), env (e\<lparr>isCancelled := False\<rparr>),
            [Prompt s (fullPrompt request) (promptOptions e request)])"
proof -
  have "promptOptions (e\<lparr>isCancelled := False\<rparr>) request = promptOptions e request"
    by (rule promptOptions_config) simp
  with assms show ?thesis
    by (simp add: generate_def generate_begin_def generate_resume_def Let_def)
qed

text \<open>The model of the regular expression matches exactly the texts that hold a
  \<open>fenced_block\<close>, and what it captures is the body of one.\<close>

lemma lazy_group_sound:
  assumes "lazy_group acc s = Some g"
  shows "\<exists>b post. g = acc @ b \<and> s = b @ newline # fence @ post"
  using assms
proof (induction s arbitrary: acc)
  case Nil
  then show ?case by simp
next
  case (Cons c cs)
  show ?case
  proof (cases "prefix (newline # fence) (c # cs)")
    case True
    then obtain post where "c # cs = (newline # fence) @ post"
      by (auto simp: prefix_def)
    moreover from True Cons.prems have "g = acc" by simp
    ultimately show ?thesis
      by (intro exI [of _ "[]"] exI [of _ post]) simp
  next
    case False
    with Cons.prems have "lazy_group (acc @ [c]) cs = Some g"
      by (simp only: lazy_group.simps if_False)
    from Cons.IH [OF this] obtain b post where
      "g = (acc @ [c]) @ b" and "cs = b @ newline # fence @ post"
      by blast
    then show ?thesis
      by (intro exI [of _ "c # b"] exI [of _ post]) simp
  qed
qed

lemma lazy_group_complete:
  "lazy_group acc (b @ newline # fence @ post) \<noteq> None"
proof (induction b arbitrary: acc)
  case Nil
  show ?case by simp
next
  case (Cons c b)
  then show ?case by simp
qed

lemma length_fence: "length fence = 3"
  by (simp add: fence_def)

lemma newline_not_word: "\<not> is_word_char newline"
  by (simp add: is_word_char_def newline_def)

lemma match_at_sound:
  assumes "match_at s = Some g"
  shows "\<exists>tag post. s = fenced_block tag g post \<and> list_all is_word_char tag"
proof -
  from assms have p: "prefix fence s"
    by (simp add: match_at_def split: if_splits)
  then obtain rest where s: "s = fence @ rest"
    by (auto simp: prefix_def)
  then have d: "drop 3 s = rest"
    by (simp add: length_fence)
  from assms p d obtain r where
    dw: "dropWhile is_word_char rest = newline # r" and lg: "lazy_group [] r = Some g"
    by (auto simp: match_at_def split: list.splits if_splits)
  from lazy_group_sound [OF lg] obtain post where r: "r = g @ newline # fence @ post"
    by auto
  have "rest = takeWhile is_word_char rest @ dropWhile is_word_char rest"
    by simp
  with dw r s have "s = fenced_block (takeWhile is_word_char rest) g post"
    by (simp add: fenced_block_def)
  moreover have "list_all is_word_char (takeWhile is_word_char rest)"
    by (auto simp: list_all_iff dest: set_takeWhileD)
  ultimately show ?thesis
    by (intro exI [of _ "takeWhile is_word_char rest"] exI [of _ post] conjI)
qed

lemma match_at_complete:
  assumes "list_all is_word_char tag"
  shows "match_at (fenced_block tag body post) \<noteq> None"
proof -
  have "dropWhile is_word_char (tag @ newline # body @ newline # fence @ post)
          = newline # body @ newline # fence @ post"
    using assms newline_not_word by (simp add: list_all_iff dropWhile_append2)
  then show ?thesis
    by (simp add: match_at_def fenced_block_def length_fence lazy_group_complete)
qed

lemma codeMatch_sound:
  assumes "codeMatch s = Some g"
  shows "\<exists>pre tag post. s = pre @ fenced_block tag g post \<and> list_all is_word_char tag"
  using assms
proof (induction s)
  case Nil
  then show ?case by simp
next
  case (Cons c cs)
  show ?case
  proof (cases "match_at (c # cs)")
    case None
    with Cons.prems have "codeMatch cs = Some g" by simp
    from Cons.IH [OF this] obtain pre tag post where
      "cs = pre @ fenced_block tag g post" and "list_all is_word_char tag"
      by blast
    then show ?thesis
      by (intro exI [of _ "c # pre"] exI [of _ tag] exI [of _ post]) simp
  next
    case (Some g')
    with Cons.prems have "g' = g" by simp
    with Some have "match_at (c # cs) = Some g" by simp
    from match_at_sound [OF this] obtain tag post where
      "c # cs = fenced_block tag g post" and "list_all is_word_char tag"
      by blast
    then show ?thesis
      by (intro exI [of _ "[]"] exI [of _ tag] exI [of _ post]) simp
  qed
qed

lemma codeMatch_complete:
  assumes "list_all is_word_char tag"
  shows "codeMatch (pre @ fenced_block tag body post) \<noteq> None"
proof (induction pre)
  case Nil
  obtain c cs where x: "fenced_block tag body post = c # cs"
    by (cases "fenced_block tag body post") (simp_all add: fenced_block_def fence_def)
  with match_at_complete [OF assms, of body post] show ?case
    by (auto split: option.splits)
next
  case (Cons p pre)
  then show ?case
    by (auto split: option.splits)
qed

lemma codeMatch_None_iff:
  "codeMatch s = None \<longleftrightarrow>
     \<not> (\<exists>pre tag body post. s = pre @ fenced_block tag body post \<and> list_all is_word_char tag)"
proof
  assume n: "codeMatch s = None"
  show "\<not> (\<exists>pre tag body post. s = pre @ fenced_block tag body post \<and> list_all is_word_char tag)"
  proof
    assume "\<exists>pre tag body post. s = pre @ fenced_block tag body post \<and> list_all is_word_char tag"
    then obtain pre tag body post where
      "s = pre @ fenced_block tag body post" and "list_all is_word_char tag"
      by blast
    with codeMatch_complete [of tag pre body post] n show False
      by simp
  qed
next
  assume h: "\<not> (\<exists>pre tag body post. s = pre @ fenced_block tag body post \<and> list_all is_word_char tag)"
  show "codeMatch s = None"
  proof (cases "codeMatch s")
    case None
    then show ?thesis .
  next
    case (Some g)
    from codeMatch_sound [OF this] h show ?thesis
      by blast
  qed
qed

text \<open>
  Claim C4, amended. Take a request on an engine that accepts it, other callers that
  leave session and configuration alone until the prompt is issued, and a stream that
  reached \<open>End\<close> (so it was neither cancelled nor failed). Then the chunk payloads
  concatenated are exactly the text the model returned for the prompt and the options
  of that request; the \<^verbatim>\<open>totalLength\<close> of \<open>End\<close> is the sum of the chunk lengths; and
  \<^verbatim>\<open>generate\<close> on the same engine, request and runtime succeeds with, as \<^verbatim>\<open>code\<close>, what
  \<^verbatim>\<open>match\<close> with the regular expression of line 177 gives on that text: the text itself
  when the expression matches nowhere, that is when the text holds no \<open>fenced_block\<close>,
  and otherwise the first capture group of the leftmost match, which is the body of a
  \<open>fenced_block\<close> of the text.
\<close>

theorem stream_rechunks_response:
  assumes "session e = Some s" and "\<not> isLoading e"
    and "session (env 0 (e\<lparr>isCancelled := False\<rparr>)) = Some s"
    and "config (env 0 (e\<lparr>isCancelled := False\<rparr>)) = config e"
    and "End n d l \<in> set (generateStream rt env e request t0 t1)"
  shows "rt_prompt rt s (fullPrompt request) (promptOptions e request)
           = Inr (concat (payloads (generateStream rt env e request t0 t1))) \<and>
         l = sum_list (map length (payloads (generateStream rt env e request t0 t1))) \<and>
         (\<exists>r. fst (generate rt env' e request t0' t1') = Inr r \<and>
              code r = (case codeMatch (concat (payloads (generateStream rt env e request t0 t1))) of
                          None \<Rightarrow> concat (payloads (generateStream rt env e request t0 t1))
                        | Some g \<Rightarrow> g)) \<and>
         (codeMatch (concat (payloads (generateStream rt env e request t0 t1))) = None \<longleftrightarrow>
            \<not> (\<exists>pre tag body post.
                  concat (payloads (generateStream rt env e request t0 t1))
                    = pre @ fenced_block tag body post \<and> list_all is_word_char tag)) \<and>
         (\<forall>g. codeMatch (concat (payloads (generateStream rt env e request t0 t1))) = Some g \<longrightarrow>
            (\<exists>pre tag post.
               concat (payloads (generateStream rt env e request t0 t1))
                 = pre @ fenced_block tag g post \<and> list_all is_word_char tag))"
proof -
  let ?evs = "generateStream rt env e request t0 t1"
  let ?e1 = "e\<lparr>isCancelled := False\<rparr>"
  have b: "stream_begin e = Inr ?e1"
    using assms(1,2) by (simp add: stream_begin_def)
  have o: "promptOptions (env 0 ?e1) request = promptOptions e request"
    by (rule promptOptions_config) (rule assms(4))
  have sp: "stream_prompt rt env ?e1 request =
              (rt_prompt rt s (fullPrompt request) (promptOptions e request), env 1 (env 0 ?e1))"
    using assms(3) by (simp add: stream_prompt_def Let_def o)
  obtain out where out: "rt_prompt rt s (fullPrompt request) (promptOptions e request) = Inr out"
  proof (cases "rt_prompt rt s (fullPrompt request) (promptOptions e request)")
    case (Inl msg)
    with sp have "?evs = Start (prompt request) # [] \<or> ?evs = [Start (prompt request), Error (GenerationError msg)]"
      by (simp add: generateStream_accepted [OF b])
    with assms(5) show ?thesis by auto
  next
    case (Inr out)
    then show ?thesis by (rule that)
  qed
  let ?e3 = "env 1 (env 0 ?e1)"
  have g: "?evs = Start (prompt request) # stream_loop env t0 t1 out 0 ?e3"
    by (simp add: generateStream_accepted [OF b] sp out)
  from stream_loop_shape [of out env t0 t1 ?e3]
  have l: "stream_loop env t0 t1 out 0 ?e3 =
             map Chunk (chunks out) @ [End (tokenCount out) (t1 - t0) (length out)]"
  proof
    assume "\<exists>j<chunkCount out.
       stream_loop env t0 t1 out 0 ?e3 = map Chunk (take j (chunks out)) @ [Error CancelledError]"
    then obtain j where
      "stream_loop env t0 t1 out 0 ?e3 = map Chunk (take j (chunks out)) @ [Error CancelledError]"
      by blast
    with g assms(5) have "End n d l \<in> set (map Chunk (take j (chunks out)) @ [Error CancelledError])"
      by simp
    with End_not_in_cancelled show ?thesis by blast
  qed
  with g have evs: "?evs = Start (prompt request) # map Chunk (chunks out)
                              @ [End (tokenCount out) (t1 - t0) (length out)]"
    by simp
  then have p: "payloads ?evs = chunks out"
    by (simp add: payloads_chunks)
  from evs assms(5) have "End n d l \<in> set (map Chunk (chunks out)
                              @ [End (tokenCount out) (t1 - t0) (length out)])"
    by simp
  then have "l = length out"
    by (rule End_in_completed)
  also have "\<dots> = length (concat (chunks out))"
    by (simp add: concat_chunks)
  also have "\<dots> = sum_list (map length (chunks out))"
    by (rule length_concat)
  finally have len: "l = sum_list (map length (payloads ?evs))"
    by (simp add: p)
  have c: "concat (payloads ?evs) = out"
    by (simp add: p concat_chunks)
  have "fst (generate rt env' e request t0' t1') = Inr (generate_result out (t1' - t0'))"
    by (simp add: generate_accepted [OF assms(1,2) out])
  moreover have "code (generate_result out (t1' - t0')) =
                   (case codeMatch out of None \<Rightarrow> out | Some g \<Rightarrow> g)"
    by (simp add: generate_result_def Let_def split: option.splits)
  ultimately have r: "\<exists>r. fst (generate rt env' e request t0' t1') = Inr r \<and>
              code r = (case codeMatch out of None \<Rightarrow> out | Some g \<Rightarrow> g)"
    by blast
  have n: "codeMatch out = None \<longleftrightarrow>
            \<not> (\<exists>pre tag body post. out = pre @ fenced_block tag body post \<and>
                  list_all is_word_char tag)"
    by (rule codeMatch_None_iff)
  have sg: "\<forall>g. codeMatch out = Some g \<longrightarrow>
            (\<exists>pre tag post. out = pre @ fenced_block tag g post \<and> list_all is_word_char tag)"
    using codeMatch_sound by blast
  from out len r n sg show ?thesis
    unfolding c by (intro conjI)
qed


lemma codeMatch_plain_answer: "codeMatch plain_answer = None"
  by (simp add: plain_answer_def fence_def match_at_def backtick_def)

theorem stream_rechunks_response_witness:
  "End 3 150 12 \<in> set (generateStream (runtime_ok plain_answer) quiet engine_ready request0 100 250) \<and>
   concat (payloads (generateStream (runtime_ok plain_answer) quiet engine_ready request0 100 250))
     = plain_answer \<and>
   sum_list (map length
     (payloads (generateStream (runtime_ok plain_answer) quiet engine_ready request0 100 250))) = 12 \<and>
   (\<exists>r. fst (generate (runtime_ok plain_answer) id engine_ready request0 100 250) = Inr r \<and>
        code r = plain_answer)"
proof -
  let ?evs = "generateStream (runtime_ok plain_answer) quiet engine_ready request0 100 250"
  have l: "length plain_answer = 12"
    by (simp add: plain_answer_def)
  then have c: "chunks plain_answer = [plain_answer]"
    by (intro chunks_short) (simp_all add: chunkSize_def)
  have e: "End 3 150 12 \<in> set ?evs"
    by (simp add: generateStream_quiet_ready c l tokenCount_def)
  have h: "session engine_ready = Some session0" "\<not> isLoading engine_ready"
    "session (quiet 0 (engine_ready\<lparr>isCancelled := False\<rparr>)) = Some session0"
    "config (quiet 0 (engine_ready\<lparr>isCancelled := False\<rparr>)) = config engine_ready"
    by (simp_all add: engine_ready_def quiet_def)
  have p: "rt_prompt (runtime_ok plain_answer) session0 (fullPrompt request0)
             (promptOptions engine_ready request0) = Inr plain_answer"
    by (simp add: runtime_ok_def)
  note t = stream_rechunks_response [OF h e, of id 100 250]
  from t p have c1: "concat (payloads ?evs) = plain_answer"
    by simp
  from t have c2: "sum_list (map length (payloads ?evs)) = 12"
    by simp
  from t have "\<exists>r. fst (generate (runtime_ok plain_answer) id engine_ready request0 100 250) = Inr r \<and>
        code r = (case codeMatch (concat (payloads ?evs)) of
                    None \<Rightarrow> concat (payloads ?evs) | Some g \<Rightarrow> g)"
    by (elim conjE)
  then have c3: "\<exists>r. fst (generate (runtime_ok plain_answer) id engine_ready request0 100 250) = Inr r \<and>
        code r = plain_answer"
    by (simp add: c1 codeMatch_plain_answer)
  from e c1 c2 c3 show ?thesis
    by (intro conjI)
qed

subsection \<open>A second generation while one is in flight\<close>

text \<open>
  The engine while a generation is in flight is the engine an accepted call leaves at
  its first suspension: \<open>e1\<close> with \<open>generate_begin e0 r1 = Inr (e1, c)\<close> for the
  synchronous form, or with \<open>stream_begin e0 = Inr e1\<close> for the streaming form. The class
  has no field that records it.
\<close>

lemma generate_begin_accepted:
  assumes "session e = Some s" and "\<not> isLoading e"
  shows "generate_begin e request =
           Inr (e\<lparr>isCancelled := False\<rparr>, s, fullPrompt request, promptOptions e request)"
proof -
  have "promptOptions (e\<lparr>isCancelled := False\<rparr>) request = promptOptions e request"
    by (rule promptOptions_config) simp
  with assms show ?thesis
    by (simp add: generate_begin_def Let_def)
qed

lemma in_flight_engine:
  assumes "(\<exists>c. generate_begin e0 r1 = Inr (e1, c)) \<or> stream_begin e0 = Inr e1"
  shows "session e1 \<noteq> None \<and> \<not> isLoading e1 \<and> \<not> isCancelled e1"
  using assms
  by (auto simp: generate_begin_def stream_begin_def Let_def split: option.splits if_splits)

text \<open>
  Claim C1, as stated, at an input where it fails. A first \<^verbatim>\<open>generate\<close> (or
  \<^verbatim>\<open>generateStream\<close>) on the loaded engine is accepted and leaves it as it is; a second
  \<^verbatim>\<open>generate\<close> issued then returns a response instead of failing, and a second
  \<^verbatim>\<open>generateStream\<close> yields \<open>Start\<close>, a chunk and \<open>End\<close> instead of an \<open>Error\<close>.
\<close>

theorem concurrent_generation_counterexample:
  "generate_begin engine_ready request0 =
     Inr (engine_ready, session0, fullPrompt request0, promptOptions engine_ready request0) \<and>
   stream_begin engine_ready = Inr engine_ready \<and>
   fst (generate (runtime_ok ''x'') id engine_ready request1 100 250) =
     Inr \<lparr>code = ''x'', explanation = ''Generated 1 lines of code in 150ms'',
          tokens = 1, generationTime = 150\<rparr> \<and>
   generateStream (runtime_ok ''x'') quiet engine_ready request1 100 250 =
     [Start ''again'', Chunk ''x'', End 1 150 1]"
proof -
  have e: "engine_ready\<lparr>isCancelled := False\<rparr> = engine_ready"
    by (simp add: engine_ready_def)
  have h: "session engine_ready = Some session0" "\<not> isLoading engine_ready"
    by (simp_all add: engine_ready_def)
  have a: "generate_begin engine_ready request0 =
     Inr (engine_ready, session0, fullPrompt request0, promptOptions engine_ready request0)"
    by (simp add: generate_begin_accepted [OF h] e)
  have "rt_prompt (runtime_ok ''x'') session0 (fullPrompt request1)
          (promptOptions engine_ready request1) = Inr ''x''"
    by (simp add: runtime_ok_def)
  from generate_accepted [OF h this, of id 100 250]
  have b: "fst (generate (runtime_ok ''x'') id engine_ready request1 100 250) =
     Inr \<lparr>code = ''x'', explanation = ''Generated 1 lines of code in 150ms'',
          tokens = 1, generationTime = 150\<rparr>"
    by (simp add: generate_result_def match_at_def fence_def backtick_def tokenCount_def
          lineCount_def newline_def show_nat_1 show_int_150)
  have "chunks ''x'' = [''x'']"
    by (rule chunks_short) (simp_all add: chunkSize_def)
  then have c: "generateStream (runtime_ok ''x'') quiet engine_ready request1 100 250 =
     [Start ''again'', Chunk ''x'', End 1 150 1]"
    by (simp add: generateStream_quiet_ready tokenCount_def request1_def request0_def)
  from a stream_begin_engine_ready b c show ?thesis
    by (intro conjI)
qed

lemma second_call_rejected:
  "(session e = None \<longrightarrow>
      generate rt env e r2 t0 t1 = (Inl (JsError NotLoadedError), e, []) \<and>
      generateStream rt env' e r2 t0 t1 = [Error NotLoadedError]) \<and>
   (session e \<noteq> None \<and> isLoading e \<longrightarrow>
      generate rt env e r2 t0 t1 = (Inl (JsError StillLoadingError), e, []) \<and>
      generateStream rt env' e r2 t0 t1 = [Error StillLoadingError])"
  by (auto simp: generate_def generate_begin_def generateStream_def stream_begin_def)

lemma second_generate_accepted:
  assumes "session e = Some s" and "\<not> isLoading e"
  shows "\<exists>res tr. generate rt env e r2 t0 t1 =
           (res, env (e\<lparr>isCancelled := False\<rparr>),
            Prompt s (fullPrompt r2) (promptOptions e r2) # tr)"
proof -
  obtain res tr where
    "generate_resume (env (e\<lparr>isCancelled := False\<rparr>))
       (rt_prompt rt s (fullPrompt r2) (promptOptions e r2)) (t1 - t0) = (res, tr)"
    by (cases "generate_resume (env (e\<lparr>isCancelled := False\<rparr>))
                 (rt_prompt rt s (fullPrompt r2) (promptOptions e r2)) (t1 - t0)")
  then have "generate rt env e r2 t0 t1 =
           (res, env (e\<lparr>isCancelled := False\<rparr>),
            Prompt s (fullPrompt r2) (promptOptions e r2) # tr)"
    by (simp add: generate_def generate_begin_accepted [OF assms] Let_def)
  then show ?thesis by blast
qed

lemma second_stream_accepted:
  assumes "session e = Some s" and "\<not> isLoading e"
    and "session (env' 0 (e\<lparr>isCancelled := False\<rparr>)) = Some s"
    and "config (env' 0 (e\<lparr>isCancelled := False\<rparr>)) = config e"
  shows "generateStream rt env' e r2 t0 t1 =
           Start (prompt r2)
             # (case rt_prompt rt s (fullPrompt r2) (promptOptions e r2) of
                  Inl msg \<Rightarrow>
                    if \<not> isCancelled (env' 1 (env' 0 (e\<lparr>isCancelled := False\<rparr>)))
                    then [Error (GenerationError msg)] else []
                | Inr out \<Rightarrow>
                    stream_loop env' t0 t1 out 0 (env' 1 (env' 0 (e\<lparr>isCancelled := False\<rparr>))))"
proof -
  have b: "stream_begin e = Inr (e\<lparr>isCancelled := False\<rparr>)"
    using assms(1,2) by (simp add: stream_begin_def)
  have o: "promptOptions (env' 0 (e\<lparr>isCancelled := False\<rparr>)) r2 = promptOptions e r2"
    by (rule promptOptions_config) (rule assms(4))
  have "stream_prompt rt env' (e\<lparr>isCancelled := False\<rparr>) r2 =
          (rt_prompt rt s (fullPrompt r2) (promptOptions e r2),
           env' 1 (env' 0 (e\<lparr>isCancelled := False\<rparr>)))"
    using assms(3) by (simp add: stream_prompt_def Let_def o)
  then show ?thesis
    by (simp add: generateStream_accepted [OF b] split: sum.splits)
qed


text \<open>
  Claim C1, amended. Let a generation of either form be in flight: a call was accepted
  and left the engine \<open>e1\<close>, and other callers have since done \<open>f\<close> to the engine
  (nothing, a \<^verbatim>\<open>cancel()\<close>, an \<^verbatim>\<open>unload()\<close>, anything). A second \<^verbatim>\<open>generate\<close> or
  \<^verbatim>\<open>generateStream\<close> issued then is never queued, and whether it is rejected depends on
  the two guards alone. Right after the acceptance, and after a \<^verbatim>\<open>cancel()\<close>, the
  session is present and the engine is not loading, and the reset of the flag undoes
  the \<^verbatim>\<open>cancel()\<close>. If the session is gone, the synchronous form throws the
  not-initialized error and the streaming form yields that single \<open>Error\<close>; if the
  engine is loading, the same with the still-loading error; in both cases nothing
  changes and the model is not prompted. Otherwise the call is accepted: it resets the
  cancellation flag and prompts the session \<open>s\<close> with its own prompt and options; the
  synchronous form returns the response of that prompt when it returns one; the first
  event of the streaming form is \<open>Start\<close>, and when the session and the configuration
  are left alone until its prompt is issued, its remaining events are computed from
  what that same prompt on \<open>s\<close> does.
\<close>

theorem second_generation_in_flight:
  assumes "(\<exists>c. generate_begin e0 r1 = Inr (e1, c)) \<or> stream_begin e0 = Inr e1"
  shows "(\<exists>s'. session e1 = Some s' \<and> \<not> isLoading e1 \<and>
                session (cancel e1) = Some s' \<and> \<not> isLoading (cancel e1) \<and>
                (cancel e1)\<lparr>isCancelled := False\<rparr> = e1) \<and>
         (session (f e1) = None \<longrightarrow>
            generate rt env (f e1) r2 t0 t1 = (Inl (JsError NotLoadedError), f e1, []) \<and>
            generateStream rt env' (f e1) r2 t0 t1 = [Error NotLoadedError]) \<and>
         (session (f e1) \<noteq> None \<and> isLoading (f e1) \<longrightarrow>
            generate rt env (f e1) r2 t0 t1 = (Inl (JsError StillLoadingError), f e1, []) \<and>
            generateStream rt env' (f e1) r2 t0 t1 = [Error StillLoadingError]) \<and>
         (session (f e1) = Some s \<and> \<not> isLoading (f e1) \<longrightarrow>
            generate_begin (f e1) r2 =
              Inr ((f e1)\<lparr>isCancelled := False\<rparr>, s, fullPrompt r2, promptOptions (f e1) r2) \<and>
            (\<exists>res tr. generate rt env (f e1) r2 t0 t1 =
               (res, env ((f e1)\<lparr>isCancelled := False\<rparr>),
                Prompt s (fullPrompt r2) (promptOptions (f e1) r2) # tr)) \<and>
            (rt_prompt rt s (fullPrompt r2) (promptOptions (f e1) r2) = Inr out \<longrightarrow>
               fst (generate rt env (f e1) r2 t0 t1) = Inr (generate_result out (t1 - t0))) \<and>
            stream_begin (f e1) = Inr ((f e1)\<lparr>isCancelled := False\<rparr>) \<and>
            hd (generateStream rt env' (f e1) r2 t0 t1) = Start (prompt r2) \<and>
            (session (env' 0 ((f e1)\<lparr>isCancelled := False\<rparr>)) = Some s \<and>
             config (env' 0 ((f e1)\<lparr>isCancelled := False\<rparr>)) = config (f e1) \<longrightarrow>
               generateStream rt env' (f e1) r2 t0 t1 =
                 Start (prompt r2)
                   # (case rt_prompt rt s (fullPrompt r2) (promptOptions (f e1) r2) of
                        Inl msg \<Rightarrow>
                          if \<not> isCancelled (env' 1 (env' 0 ((f e1)\<lparr>isCancelled := False\<rparr>)))
                          then [Error (GenerationError msg)] else []
                      | Inr out \<Rightarrow>
                          stream_loop env' t0 t1 out 0
                            (env' 1 (env' 0 ((f e1)\<lparr>isCancelled := False\<rparr>))))))"
proof (intro conjI)
  from in_flight_engine [OF assms] obtain s' where
    "session e1 = Some s'" "\<not> isLoading e1" "\<not> isCancelled e1"
    by auto
  then show "\<exists>s'. session e1 = Some s' \<and> \<not> isLoading e1 \<and>
                session (cancel e1) = Some s' \<and> \<not> isLoading (cancel e1) \<and>
                (cancel e1)\<lparr>isCancelled := False\<rparr> = e1"
    by (simp add: cancel_def)
next
  show "session (f e1) = None \<longrightarrow>
            generate rt env (f e1) r2 t0 t1 = (Inl (JsError NotLoadedError), f e1, []) \<and>
            generateStream rt env' (f e1) r2 t0 t1 = [Error NotLoadedError]"
    using second_call_rejected [of "f e1" rt env r2 t0 t1 env'] by blast
next
  show "session (f e1) \<noteq> None \<and> isLoading (f e1) \<longrightarrow>
            generate rt env (f e1) r2 t0 t1 = (Inl (JsError StillLoadingError), f e1, []) \<and>
            generateStream rt env' (f e1) r2 t0 t1 = [Error StillLoadingError]"
    using second_call_rejected [of "f e1" rt env r2 t0 t1 env'] by blast
next
  show "session (f e1) = Some s \<and> \<not> isLoading (f e1) \<longrightarrow>
            generate_begin (f e1) r2 =
              Inr ((f e1)\<lparr>isCancelled := False\<rparr>, s, fullPrompt r2, promptOptions (f e1) r2) \<and>
            (\<exists>res tr. generate rt env (f e1) r2 t0 t1 =
               (res, env ((f e1)\<lparr>isCancelled := False\<rparr>),
                Prompt s (fullPrompt r2) (promptOptions (f e1) r2) # tr)) \<and>
            (rt_prompt rt s (fullPrompt r2) (promptOptions (f e1) r2) = Inr out \<longrightarrow>
               fst (generate rt env (f e1) r2 t0 t1) = Inr (generate_result out (t1 - t0))) \<and>
            stream_begin (f e1) = Inr ((f e1)\<lparr>isCancelled := False\<rparr>) \<and>
            hd (generateStream rt env' (f e1) r2 t0 t1) = Start (prompt r2) \<and>
            (session (env' 0 ((f e1)\<lparr>isCancelled := False\<rparr>)) = Some s \<and>
             config (env' 0 ((f e1)\<lparr>isCancelled := False\<rparr>)) = config (f e1) \<longrightarrow>
               generateStream rt env' (f e1) r2 t0 t1 =
                 Start (prompt r2)
                   # (case rt_prompt rt s (fullPrompt r2) (promptOptions (f e1) r2) of
                        Inl msg \<Rightarrow>
                          if \<not> isCancelled (env' 1 (env' 0 ((f e1)\<lparr>isCancelled := False\<rparr>)))
                          then [Error (GenerationError msg)] else []
                      | Inr out \<Rightarrow>
                          stream_loop env' t0 t1 out 0
                            (env' 1 (env' 0 ((f e1)\<lparr>isCancelled := False\<rparr>)))))"
  proof (intro impI, elim conjE, intro conjI impI)
    assume s: "session (f e1) = Some s" and l: "\<not> isLoading (f e1)"
    show "generate_begin (f e1) r2 =
              Inr ((f e1)\<lparr>isCancelled := False\<rparr>, s, fullPrompt r2, promptOptions (f e1) r2)"
      by (rule generate_begin_accepted [OF s l])
    show "\<exists>res tr. generate rt env (f e1) r2 t0 t1 =
               (res, env ((f e1)\<lparr>isCancelled := False\<rparr>),
                Prompt s (fullPrompt r2) (promptOptions (f e1) r2) # tr)"
      by (rule second_generate_accepted [OF s l])
    show b: "stream_begin (f e1) = Inr ((f e1)\<lparr>isCancelled := False\<rparr>)"
      using s l by (simp add: stream_begin_def)
    show "hd (generateStream rt env' (f e1) r2 t0 t1) = Start (prompt r2)"
      by (simp add: generateStream_accepted [OF b])
    {
      assume "rt_prompt rt s (fullPrompt r2) (promptOptions (f e1) r2) = Inr out"
      then show "fst (generate rt env (f e1) r2 t0 t1) = Inr (generate_result out (t1 - t0))"
        by (simp add: generate_accepted [OF s l])
    }
    {
      assume "session (env' 0 ((f e1)\<lparr>isCancelled := False\<rparr>)) = Some s \<and>
             config (env' 0 ((f e1)\<lparr>isCancelled := False\<rparr>)) = config (f e1)"
      then show "generateStream rt env' (f e1) r2 t0 t1 =
                 Start (prompt r2)
                   # (case rt_prompt rt s (fullPrompt r2) (promptOptions (f e1) r2) of
                        Inl msg \<Rightarrow>
                          if \<not> isCancelled (env' 1 (env' 0 ((f e1)\<lparr>isCancelled := False\<rparr>)))
                          then [Error (GenerationError msg)] else []
                      | Inr out \<Rightarrow>
                          stream_loop env' t0 t1 out 0
                            (env' 1 (env' 0 ((f e1)\<lparr>isCancelled := False\<rparr>))))"
        by (intro second_stream_accepted [OF s l]) simp_all
    }
  qed
qed


theorem second_generation_in_flight_witness:
  "stream_begin engine_ready = Inr engine_ready \<and>
   generate_begin (cancel engine_ready) request1 =
     Inr (engine_ready, session0, fullPrompt request1,
          promptOptions (cancel engine_ready) request1) \<and>
   fst (generate (runtime_ok ''x'') id (cancel engine_ready) request1 100 250)
     = Inr (generate_result ''x'' 150) \<and>
   hd (generateStream (runtime_ok ''x'') quiet (cancel engine_ready) request1 100 250)
     = Start ''again'' \<and>
   generate (runtime_ok ''x'') id (unload_ok engine_ready) request1 100 250
     = (Inl (JsError ''LLM engine not initialized. Call initialize() first.''),
        unload_ok engine_ready, []) \<and>
   generateStream (runtime_ok ''x'') quiet (unload_ok engine_ready) request1 100 250
     = [Error ''LLM engine not initialized. Call initialize() first.''] \<and>
   generate (runtime_ok ''x'') id (begin_loading engine_ready) request1 100 250
     = (Inl (JsError ''Model is still loading. Please wait.''), begin_loading engine_ready, []) \<and>
   generateStream (runtime_ok ''x'') quiet (begin_loading engine_ready) request1 100 250
     = [Error ''Model is still loading. Please wait.'']"
proof -
  have h: "(\<exists>c. generate_begin engine_ready request0 = Inr (engine_ready, c)) \<or>
           stream_begin engine_ready = Inr engine_ready"
    using stream_begin_engine_ready by blast
  have c: "session (cancel engine_ready) = Some session0 \<and> \<not> isLoading (cancel engine_ready)"
    "(cancel engine_ready)\<lparr>isCancelled := False\<rparr> = engine_ready"
    "rt_prompt (runtime_ok ''x'') session0 (fullPrompt request1)
       (promptOptions (cancel engine_ready) request1) = Inr ''x''"
    "prompt request1 = ''again''"
    by (simp_all add: cancel_def engine_ready_def runtime_ok_def request1_def)
  have u: "session (unload_ok engine_ready) = None"
    by (simp add: unload_ok_def unload_def unload_try_def engine_ready_def runtime_ok_def)
  have l: "session (begin_loading engine_ready) \<noteq> None \<and> isLoading (begin_loading engine_ready)"
    by (simp add: begin_loading_def engine_ready_def)
  from second_generation_in_flight [OF h, where f = cancel and s = session0
         and rt = "runtime_ok ''x''" and env = id and ?r2.0 = request1 and ?t0.0 = 100
         and ?t1.0 = 250 and env' = quiet and out = "''x''"] c
  have 1: "generate_begin (cancel engine_ready) request1 =
     Inr (engine_ready, session0, fullPrompt request1,
          promptOptions (cancel engine_ready) request1) \<and>
   fst (generate (runtime_ok ''x'') id (cancel engine_ready) request1 100 250)
     = Inr (generate_result ''x'' 150) \<and>
   hd (generateStream (runtime_ok ''x'') quiet (cancel engine_ready) request1 100 250)
     = Start ''again''"
    by simp
  from second_generation_in_flight [OF h, where f = unload_ok
         and rt = "runtime_ok ''x''" and env = id and ?r2.0 = request1 and ?t0.0 = 100
         and ?t1.0 = 250 and env' = quiet] u
  have 2: "generate (runtime_ok ''x'') id (unload_ok engine_ready) request1 100 250
     = (Inl (JsError ''LLM engine not initialized. Call initialize() first.''),
        unload_ok engine_ready, []) \<and>
   generateStream (runtime_ok ''x'') quiet (unload_ok engine_ready) request1 100 250
     = [Error ''LLM engine not initialized. Call initialize() first.'']"
    by (simp add: NotLoadedError_def)
  from second_generation_in_flight [OF h, where f = begin_loading
         and rt = "runtime_ok ''x''" and env = id and ?r2.0 = request1 and ?t0.0 = 100
         and ?t1.0 = 250 and env' = quiet] l
  have 3: "generate (runtime_ok ''x'') id (begin_loading engine_ready) request1 100 250
     = (Inl (JsError ''Model is still loading. Please wait.''), begin_loading engine_ready, []) \<and>
   generateStream (runtime_ok ''x'') quiet (begin_loading engine_ready) request1 100 250
     = [Error ''Model is still loading. Please wait.'']"
    by (simp add: StillLoadingError_def)
  from stream_begin_engine_ready 1 2 3 show ?thesis
    by (intro conjI) simp_all
qed

subsection \<open>The prompt and the sampling parameters passed to the model\<close>

text \<open>
  Claim C8, as stated, at an input where it fails. The request carries an empty
  \<^verbatim>\<open>systemPrompt\<close>. The prompt passed to \<^verbatim>\<open>session.prompt\<close> starts with the default
  system prompt, not with the request's, and holds the separator \<^verbatim>\<open>"\n\nUser: "\<close>
  between the system prompt and the user prompt: it is neither the concatenation that
  the claim describes nor that concatenation with the separator inserted.
\<close>

theorem effective_prompt_counterexample:
  "snd (snd (generate (runtime_ok ''x'') id engine_ready request_empty_system 0 1)) =
     [Prompt session0
        (SYSTEM_PROMPTS_codeGeneration @ [newline, newline] @ ''User: hello'')
        \<lparr>o_temperature = 7 / 10, o_maxTokens = 2048, o_topP = 9 / 10, o_topK = 40\<rparr>] \<and>
   systemPrompt request_empty_system = Some [] \<and>
   spec_effectivePrompt request_empty_system = ''hello'' \<and>
   SYSTEM_PROMPTS_codeGeneration @ [newline, newline] @ ''User: hello''
     \<noteq> spec_effectivePrompt request_empty_system \<and>
   SYSTEM_PROMPTS_codeGeneration @ [newline, newline] @ ''User: hello''
     \<noteq> spec_systemInstruction request_empty_system @ [newline, newline] @ ''User: hello''"
proof -
  have h: "session engine_ready = Some session0" "\<not> isLoading engine_ready"
    by (simp_all add: engine_ready_def)
  have p: "rt_prompt (runtime_ok ''x'') session0 (fullPrompt request_empty_system)
          (promptOptions engine_ready request_empty_system) = Inr ''x''"
    by (simp add: runtime_ok_def)
  have f: "fullPrompt request_empty_system =
             SYSTEM_PROMPTS_codeGeneration @ [newline, newline] @ ''User: hello''"
    by (simp add: fullPrompt_def systemPrompt_of_def request_empty_system_def request0_def)
  have o: "promptOptions engine_ready request_empty_system =
             \<lparr>o_temperature = 7 / 10, o_maxTokens = 2048, o_topP = 9 / 10, o_topK = 40\<rparr>"
    by (simp add: promptOptions_def request_empty_system_def request0_def engine_ready_def
          config0_def LLM_DEFAULTS_maxTokens_def)
  have 1: "snd (snd (generate (runtime_ok ''x'') id engine_ready request_empty_system 0 1)) =
     [Prompt session0
        (SYSTEM_PROMPTS_codeGeneration @ [newline, newline] @ ''User: hello'')
        \<lparr>o_temperature = 7 / 10, o_maxTokens = 2048, o_topP = 9 / 10, o_topK = 40\<rparr>]"
    by (simp add: generate_accepted [OF h p] f o)
  have 2: "systemPrompt request_empty_system = Some []"
    by (simp add: request_empty_system_def)
  have 3: "spec_effectivePrompt request_empty_system = ''hello''"
    by (simp add: spec_effectivePrompt_def spec_systemInstruction_def request_empty_system_def
          request0_def)
  have 4: "SYSTEM_PROMPTS_codeGeneration @ [newline, newline] @ ''User: hello''
     \<noteq> spec_effectivePrompt request_empty_system"
    by (simp add: 3 SYSTEM_PROMPTS_codeGeneration_def)
  have 5: "SYSTEM_PROMPTS_codeGeneration @ [newline, newline] @ ''User: hello''
     \<noteq> spec_systemInstruction request_empty_system @ [newline, newline] @ ''User: hello''"
    by (simp add: spec_systemInstruction_def request_empty_system_def
          SYSTEM_PROMPTS_codeGeneration_def)
  from 1 2 3 4 5 show ?thesis
    by (intro conjI)
qed

text \<open>
  Claim C8, amended. On an engine that accepts the request, the first effect of
  \<^verbatim>\<open>generate\<close> is the call of \<^verbatim>\<open>session.prompt\<close>. Its prompt is the system instruction
  (the \<^verbatim>\<open>systemPrompt\<close> of the request when present and not empty, otherwise the
  default), then \<^verbatim>\<open>"\n\nUser: "\<close>, then the user prompt. Its temperature is the one of the
  request when present, otherwise the one of the engine's configuration; its maximum of
  tokens is the one of the request when present, otherwise the constant 2048; its top-p
  and top-k are always the ones of the engine's configuration (a request has neither).
\<close>

theorem effective_prompt_and_sampling:
  assumes "session e = Some s" and "\<not> isLoading e"
  shows "hd (snd (snd (generate rt env e request t0 t1))) =
           Prompt s
             ((case systemPrompt request of
                 None \<Rightarrow> SYSTEM_PROMPTS_codeGeneration
               | Some sp \<Rightarrow> if sp = [] then SYSTEM_PROMPTS_codeGeneration else sp)
              @ [newline, newline] @ ''User: '' @ prompt request)
             \<lparr>o_temperature =
                (case r_temperature request of None \<Rightarrow> temperature (config e) | Some t \<Rightarrow> t),
              o_maxTokens = (case maxTokens request of None \<Rightarrow> 2048 | Some k \<Rightarrow> k),
              o_topP = topP (config e),
              o_topK = topK (config e)\<rparr>"
proof -
  have "generate_begin e request =
          Inr (e\<lparr>isCancelled := False\<rparr>, s, fullPrompt request, promptOptions e request)"
    by (rule generate_begin_accepted [OF assms])
  then have "hd (snd (snd (generate rt env e request t0 t1))) =
               Prompt s (fullPrompt request) (promptOptions e request)"
    by (simp add: generate_def Let_def split: prod.splits)
  then show ?thesis
    by (simp add: fullPrompt_def systemPrompt_of_def promptOptions_def LLM_DEFAULTS_maxTokens_def
          cong: option.case_cong)
qed

theorem effective_prompt_and_sampling_witness:
  "session engine_ready = Some session0 \<and> \<not> isLoading engine_ready \<and>
   hd (snd (snd (generate (runtime_ok ''x'') id engine_ready
         (request0\<lparr>systemPrompt := Some ''Be brief.'', r_temperature := Some 0,
                   maxTokens := Some 64\<rparr>) 0 1))) =
     Prompt session0 (''Be brief.'' @ [newline, newline] @ ''User: hello'')
       \<lparr>o_temperature = 0, o_maxTokens = 64, o_topP = 9 / 10, o_topK = 40\<rparr>"
proof -
  have h: "session engine_ready = Some session0" "\<not> isLoading engine_ready"
    by (simp_all add: engine_ready_def)
  have c: "topP (config engine_ready) = 9 / 10" "topK (config engine_ready) = 40"
    by (simp_all add: engine_ready_def config0_def)
  from effective_prompt_and_sampling [OF h, of "runtime_ok ''x''" id
         "request0\<lparr>systemPrompt := Some ''Be brief.'', r_temperature := Some 0,
                   maxTokens := Some 64\<rparr>" 0 1] h c
  show ?thesis
    by (simp add: request0_def)
qed

end
